theory Spec2Isabelle
  imports Complex_Main "HOL-Library.Word" "HOL-Library.Log_Nat"
begin

section \<open>Values, errors and constants\<close>

text \<open>
  The order engine is TypeScript. A JavaScript \<open>number\<close> and a \<open>bignumber.js\<close> decimal are
  both modelled by the rational they denote (\<^typ>\<open>rat\<close>): every comparison the code makes
  is exact on them. Where the code adds or subtracts numbers that need not be whole (the
  basis points of the fees, the amounts of a price), the result is the exact one rounded to
  the nearest \<open>number\<close> (\<open>roundDouble\<close> below). The arithmetic on times is kept exact: the clock
  is a whole number of milliseconds, and \<open>Math.round\<close> gives the same on the exact quotient by
  1000 and on the rounded one, which is off by less than a thousandth. \<open>Date.now()\<close> is an
  input of each function that reads the clock, in milliseconds; a function that reads it
  several times is given one reading. Every \<open>throw\<close> of the source is a constructor of
  \<open>error\<close>, and a function that can throw returns \<open>error + 'a\<close>. Names that start with an
  underscore in the source lose it here.
\<close>

datatype error =
    ExpirationTooSoon
  | ListingInThePast
  | ListingNotBeforeExpiration
  | EnglishAuctionWithoutExpiration
  | EnglishAuctionScheduled
  | ExpirationNotWhole
  | BountyExceedsCap
  | StartingPriceInvalid
  | EnglishAuctionNeedsToken
  | OffersNeedToken
  | EndPriceAboveStartPrice
  | ExpirationRequiredForPriceChange
  | ReservePriceWithoutAuction
  | ReservePriceBelowStart
  | InvalidDecimalValue
  | ContractAddressUndefined
  | DefaultValueNotImplemented
  | DynamicReplacementUnsupported
  | AmbiguousReplacementTarget nat
  | InvalidOrderMetadata
  | InvalidAddress
  | InvalidAbiValue
  | InvalidHashValue
  | TypeError
  | TokenIdRequired
  | MissingOwnershipSchema
  | UnableToGetOwner
  | NotEnoughOwned
  | UnknownSchema
  | RpcError

definition INVERSE_BASIS_POINT :: rat where
  "INVERSE_BASIS_POINT = 10000"

definition NULL_ADDRESS :: string where
  "NULL_ADDRESS = ''0x0000000000000000000000000000000000000000''"

definition MIN_EXPIRATION_SECONDS :: rat where
  "MIN_EXPIRATION_SECONDS = 10"

definition ORDER_MATCHING_LATENCY_SECONDS :: rat where
  "ORDER_MATCHING_LATENCY_SECONDS = 60 * 60 * 24 * 7"

definition OPENSEA_FEE_RECIPIENT :: string where
  "OPENSEA_FEE_RECIPIENT = ''0x5b3256965e7c3cf26e11fcaf296dfc8807c01073''"

definition MAX_DIGITS_IN_UNSIGNED_256_INT :: nat where
  "MAX_DIGITS_IN_UNSIGNED_256_INT = 72"

definition DEFAULT_BUYER_FEE_BASIS_POINTS :: rat where
  "DEFAULT_BUYER_FEE_BASIS_POINTS = 0"

definition DEFAULT_SELLER_FEE_BASIS_POINTS :: rat where
  "DEFAULT_SELLER_FEE_BASIS_POINTS = 250"

definition OPENSEA_SELLER_BOUNTY_BASIS_POINTS :: rat where
  "OPENSEA_SELLER_BOUNTY_BASIS_POINTS = 100"

definition DEFAULT_MAX_BOUNTY :: rat where
  "DEFAULT_MAX_BOUNTY = DEFAULT_SELLER_FEE_BASIS_POINTS"

text \<open>
  The arithmetic of \<open>number\<close>, IEEE 754 double precision: the result of \<open>x + y\<close> is the exact
  sum rounded to the nearest number with 53 significant bits, a tie to the even one.
  \<open>binaryExponent x\<close> is the \<open>e\<close> with \<open>2^e \<le> |x| < 2^(e+1)\<close>, found from the bit lengths of
  numerator and denominator; below \<open>2^-1022\<close> the spacing stays that of \<open>2^-1022\<close>. Overflow to
  infinity and \<open>NaN\<close> are not modelled.
\<close>

definition pow2 :: "int \<Rightarrow> rat" where
  "pow2 n = (if 0 \<le> n then 2 ^ nat n else 1 / 2 ^ nat (- n))"

definition binaryExponent :: "rat \<Rightarrow> int" where
  "binaryExponent x =
    (case quotient_of \<bar>x\<bar> of
       (p, q) \<Rightarrow> (let d = bitlen p - bitlen q in if pow2 d \<le> \<bar>x\<bar> then d else d - 1))"

definition roundHalfEven :: "rat \<Rightarrow> int" where
  "roundHalfEven q =
    (let f = \<lfloor>q\<rfloor>; r = q - of_int f
     in if r < 1 / 2 then f else if 1 / 2 < r then f + 1 else if even f then f else f + 1)"

definition roundDouble :: "rat \<Rightarrow> rat" where
  "roundDouble x =
    (if x = 0 then 0
     else (let u = pow2 (max (binaryExponent x) (- 1022) - 52)
           in of_int (roundHalfEven (x / u)) * u))"

text \<open>\<open>Math.round\<close> rounds to the nearest integer, a half towards plus infinity.\<close>

definition Math_round :: "rat \<Rightarrow> rat" where
  "Math_round x = of_int \<lfloor>x + 1 / 2\<rfloor>"

text \<open>
  \<open>parseInt(x.toString()) !== x\<close>: the decimal text of a number is read back as the number
  itself exactly when the number is whole and below \<open>10^21\<close> in magnitude (from there on
  \<open>toString\<close> switches to exponent notation, of which \<open>parseInt\<close> reads the leading digits
  only).
\<close>

definition isWholeNumber :: "rat \<Rightarrow> bool" where
  "isWholeNumber x \<longleftrightarrow> of_int \<lfloor>x\<rfloor> = x \<and> \<bar>x\<bar> < 10 ^ 21"

text \<open>
  An optional numeric argument used as a condition (\<open>listingTimestamp && ...\<close>): both
  \<open>undefined\<close> and \<open>0\<close> are falsy.
\<close>

definition truthy :: "rat option \<Rightarrow> bool" where
  "truthy v = (case v of None \<Rightarrow> False | Some x \<Rightarrow> x \<noteq> 0)"

definition valueOr :: "rat option \<Rightarrow> rat \<Rightarrow> rat" where
  "valueOr v d = (case v of None \<Rightarrow> d | Some x \<Rightarrow> if x = 0 then d else x)"

section \<open>Time parameters\<close>

record times =
  times_expirationTime :: rat
  times_listingTime :: rat

text \<open>
  \<open>_getTimeParameters(expirationTimestamp, listingTimestamp?, waitingForBestCounterOrder)\<close>.
  The six checks are in the order of the source; \<open>listingTimestamp < x\<close> under a truthy
  \<open>listingTimestamp\<close> reads the given value.
\<close>

definition getTimeParameters :: "int \<Rightarrow> rat \<Rightarrow> rat option \<Rightarrow> bool \<Rightarrow> error + times" where
  "getTimeParameters now expirationTimestamp listingTimestamp waitingForBestCounterOrder =
    (let minExpirationTimestamp = Math_round (of_int now / 1000 + MIN_EXPIRATION_SECONDS);
         minListingTimestamp = Math_round (of_int now / 1000)
     in
       if expirationTimestamp \<noteq> 0 \<and> expirationTimestamp < minExpirationTimestamp
         then Inl ExpirationTooSoon
       else if truthy listingTimestamp \<and> valueOr listingTimestamp 0 < minListingTimestamp
         then Inl ListingInThePast
       else if truthy listingTimestamp \<and> expirationTimestamp \<noteq> 0
               \<and> valueOr listingTimestamp 0 \<ge> expirationTimestamp
         then Inl ListingNotBeforeExpiration
       else if waitingForBestCounterOrder \<and> expirationTimestamp = 0
         then Inl EnglishAuctionWithoutExpiration
       else if waitingForBestCounterOrder \<and> truthy listingTimestamp
         then Inl EnglishAuctionScheduled
       else if \<not> isWholeNumber expirationTimestamp
         then Inl ExpirationNotWhole
       else if waitingForBestCounterOrder
         then Inr \<lparr> times_expirationTime = expirationTimestamp + ORDER_MATCHING_LATENCY_SECONDS,
                    times_listingTime = expirationTimestamp \<rparr>
       else Inr \<lparr> times_expirationTime = expirationTimestamp,
                  times_listingTime = valueOr listingTimestamp (Math_round (of_int now / 1000 - 100)) \<rparr>)"

text \<open>
  The timing rules as the specification words them: the five rejections it lists, success in
  every other case.
\<close>

definition timingRejected_spec :: "int \<Rightarrow> rat \<Rightarrow> rat option \<Rightarrow> bool \<Rightarrow> bool" where
  "timingRejected_spec now expirationTimestamp listingTimestamp waitingForBestCounterOrder \<longleftrightarrow>
     (expirationTimestamp \<noteq> 0
        \<and> expirationTimestamp < Math_round (of_int now / 1000) + 10)
     \<or> (case listingTimestamp of None \<Rightarrow> False
         | Some l \<Rightarrow> expirationTimestamp \<noteq> 0 \<and> l < Math_round (of_int now / 1000))
     \<or> (case listingTimestamp of None \<Rightarrow> False
         | Some l \<Rightarrow> l \<noteq> 0 \<and> expirationTimestamp \<noteq> 0 \<and> l \<ge> expirationTimestamp)
     \<or> (waitingForBestCounterOrder \<and> expirationTimestamp = 0)
     \<or> (waitingForBestCounterOrder \<and> listingTimestamp \<noteq> None)"

section \<open>Enumerations and assets\<close>

text \<open>
  The enumerations and the asset types come from \<open>@core/network/api/nfts/types\<close>, which is
  not among the sources. An enumeration that reaches the hash as a number is a
  \<^typ>\<open>nat\<close> with named values, those of the Wyvern exchange contract (the source itself
  reads \<open>saleKind === 1\<close> as the Dutch auction and inverts a side with
  \<open>(side + 1) % 2\<close>); the schema names are a datatype.
\<close>

definition NftOrderSide_Buy :: nat where "NftOrderSide_Buy = 0"
definition NftOrderSide_Sell :: nat where "NftOrderSide_Sell = 1"
definition NftSaleKind_FixedPrice :: nat where "NftSaleKind_FixedPrice = 0"
definition NftSaleKind_DutchAuction :: nat where "NftSaleKind_DutchAuction = 1"
definition FeeMethod_SplitFee :: nat where "FeeMethod_SplitFee = 1"
definition HowToCall_Call :: nat where "HowToCall_Call = 0"

datatype WyvernSchemaName = ERC20 | ERC721 | ERC1155 | LegacyEnjin | ENSShortNameAuction

text \<open>
  The fields of an \<open>NftAsset\<close> that the order engine reads. \<open>asset_contract\<close> is optional
  because \<open>_makeSellOrder\<close> tests it; the collection's fees are what \<open>parseInt\<close> reads from
  them, \<open>None\<close> for \<open>NaN\<close> (a missing collection or a missing fee).
\<close>

record AssetContract =
  contract_address :: string
  schema_name :: "WyvernSchemaName option"
  opensea_buyer_fee_basis_points :: rat
  opensea_seller_fee_basis_points :: rat
  dev_buyer_fee_basis_points :: rat
  dev_seller_fee_basis_points :: rat

record NftAsset =
  asset_contract :: "AssetContract option"
  collection_dev_buyer_fee_basis_points :: "int option"
  collection_dev_seller_fee_basis_points :: "int option"
  token_id :: string
  asset_name :: string
  transfer_fee :: "rat option"
  transfer_fee_payment_token :: "string option"

text \<open>
  A \<open>WyvernAsset\<close>, the asset of an order's metadata: \<open>{address, id, quantity}\<close>, the
  quantity present or not (\<open>'quantity' in wyAsset\<close>).
\<close>

record WyvernAsset =
  wy_address :: string
  wy_id :: string
  wy_quantity :: "rat option"

section \<open>Fees\<close>

record ComputedFees =
  devBuyerFeeBasisPoints :: rat
  devSellerFeeBasisPoints :: rat
  openseaBuyerFeeBasisPoints :: rat
  openseaSellerFeeBasisPoints :: rat
  sellerBountyBasisPoints :: rat
  totalBuyerFeeBasisPoints :: rat
  totalSellerFeeBasisPoints :: rat
  transferFee :: rat
  transferFeeTokenAddress :: "string option"

text \<open>
  The fee schedule \<open>computeFees\<close> starts from: the defaults without an asset, the asset's own
  figures with one. \<open>x + parseInt(y) || 0\<close> is \<open>0\<close> when \<open>parseInt\<close> gives \<open>NaN\<close> (and when
  the sum is \<open>0\<close>). The tuple is (OpenSea buyer fee, OpenSea seller fee, developer buyer fee,
  developer seller fee, maximum total bounty).
\<close>

definition feeSchedule :: "NftAsset option \<Rightarrow> error + (rat \<times> rat \<times> rat \<times> rat \<times> rat)" where
  "feeSchedule asset =
    (case asset of
       None \<Rightarrow> Inr (DEFAULT_BUYER_FEE_BASIS_POINTS, DEFAULT_SELLER_FEE_BASIS_POINTS, 0, 0,
                    DEFAULT_MAX_BOUNTY)
     | Some a \<Rightarrow>
        (case asset_contract a of
           None \<Rightarrow> Inl TypeError
         | Some c \<Rightarrow>
             Inr (opensea_buyer_fee_basis_points c,
                  opensea_seller_fee_basis_points c,
                  (case collection_dev_buyer_fee_basis_points a of
                     None \<Rightarrow> 0
                   | Some k \<Rightarrow> roundDouble (dev_buyer_fee_basis_points c + of_int k)),
                  (case collection_dev_seller_fee_basis_points a of
                     None \<Rightarrow> 0
                   | Some k \<Rightarrow> roundDouble (dev_seller_fee_basis_points c + of_int k)),
                  opensea_seller_fee_basis_points c)))"

text \<open>\<open>computeFees({asset, extraBountyBasisPoints, side})\<close>.\<close>

definition computeFees :: "NftAsset option \<Rightarrow> rat \<Rightarrow> nat \<Rightarrow> error + ComputedFees" where
  "computeFees asset extraBountyBasisPoints side =
    (case feeSchedule asset of
       Inl e \<Rightarrow> Inl e
     | Inr (openseaBuyer, openseaSeller, devBuyer, devSeller, maxTotalBountyBPS) \<Rightarrow>
        (let sellOfAsset = (side = NftOrderSide_Sell \<and> asset \<noteq> None);
             fee = (case asset of None \<Rightarrow> 0 | Some a \<Rightarrow> valueOr (transfer_fee a) 0);
             feeToken = (case asset of None \<Rightarrow> None
                         | Some a \<Rightarrow> (case transfer_fee_payment_token a of
                                       None \<Rightarrow> None
                                     | Some t \<Rightarrow> if t = [] then None else Some t));
             sellerBounty = (if side = NftOrderSide_Sell then extraBountyBasisPoints else 0);
             bountyTooLarge =
               (roundDouble (sellerBounty + OPENSEA_SELLER_BOUNTY_BASIS_POINTS) > maxTotalBountyBPS)
         in if sellerBounty > 0 \<and> bountyTooLarge then Inl BountyExceedsCap
            else Inr \<lparr> devBuyerFeeBasisPoints = devBuyer,
                       devSellerFeeBasisPoints = devSeller,
                       openseaBuyerFeeBasisPoints = openseaBuyer,
                       openseaSellerFeeBasisPoints = openseaSeller,
                       sellerBountyBasisPoints = sellerBounty,
                       totalBuyerFeeBasisPoints = roundDouble (openseaBuyer + devBuyer),
                       totalSellerFeeBasisPoints = roundDouble (openseaSeller + devSeller),
                       transferFee = (if sellOfAsset then fee else 0),
                       transferFeeTokenAddress = (if sellOfAsset then feeToken else None) \<rparr>))"

text \<open>
  The bounty cap as the specification words it: the error exactly when the extra bounty plus
  the marketplace bounty exceeds the asset's maximum.
\<close>

definition bountyRejected_spec :: "rat \<Rightarrow> rat \<Rightarrow> bool" where
  "bountyRejected_spec extraBountyBasisPoints maxBounty \<longleftrightarrow>
     roundDouble (extraBountyBasisPoints + OPENSEA_SELLER_BOUNTY_BASIS_POINTS) > maxBounty"

record FeeParameters =
  fp_feeMethod :: nat
  fp_feeRecipient :: string
  fp_makerProtocolFee :: rat
  fp_makerReferrerFee :: rat
  fp_makerRelayerFee :: rat
  fp_takerProtocolFee :: rat
  fp_takerRelayerFee :: rat

text \<open>\<open>_getSellFeeParameters\<close>: an English auction swaps the maker and taker relayer fees.\<close>

definition getSellFeeParameters :: "rat \<Rightarrow> rat \<Rightarrow> bool \<Rightarrow> rat \<Rightarrow> FeeParameters" where
  "getSellFeeParameters totalBuyerFee totalSellerFee waitForHighestBid sellerBounty =
    \<lparr> fp_feeMethod = FeeMethod_SplitFee,
      fp_feeRecipient = (if waitForHighestBid then NULL_ADDRESS else OPENSEA_FEE_RECIPIENT),
      fp_makerProtocolFee = 0,
      fp_makerReferrerFee = sellerBounty,
      fp_makerRelayerFee = (if waitForHighestBid then totalBuyerFee else totalSellerFee),
      fp_takerProtocolFee = 0,
      fp_takerRelayerFee = (if waitForHighestBid then totalSellerFee else totalBuyerFee) \<rparr>"

section \<open>Strings, bytes and hexadecimal text\<close>

type_synonym byte = "8 word"

text \<open>\<open>String.prototype.toLowerCase\<close> on the letters of ASCII, which is all an address holds.\<close>

definition upperToLower :: "(char \<times> char) list" where
  "upperToLower = zip ''ABCDEFGHIJKLMNOPQRSTUVWXYZ'' ''abcdefghijklmnopqrstuvwxyz''"

definition toLowerChar :: "char \<Rightarrow> char" where
  "toLowerChar c = (case map_of upperToLower c of None \<Rightarrow> c | Some l \<Rightarrow> l)"

definition toLowerCase :: "string \<Rightarrow> string" where
  "toLowerCase s = map toLowerChar s"

definition hexDigits :: "(char \<times> nat) list" where
  "hexDigits =
     zip ''0123456789abcdefABCDEF''
       [0, 1, 2, 3, 4, 5, 6, 7, 8, 9, 10, 11, 12, 13, 14, 15, 10, 11, 12, 13, 14, 15]"

definition hexDigit :: "char \<Rightarrow> nat option" where
  "hexDigit c = map_of hexDigits c"

text \<open>
  The bytes of a text of hexadecimal digits, two digits a byte. A text of odd length or with
  another character has no bytes here: the libraries differ on it (they throw, or cut the
  text short).
\<close>

fun hexBytes :: "string \<Rightarrow> byte list option" where
  "hexBytes [] = Some []"
| "hexBytes [c] = None"
| "hexBytes (a # b # cs) =
    (case (hexDigit a, hexDigit b, hexBytes cs) of
       (Some h, Some l, Some bs) \<Rightarrow> Some (word_of_nat (16 * h + l) # bs)
     | _ \<Rightarrow> None)"

text \<open>
  \<open>ethers.utils.arrayify\<close> on a string: the string has to match \<open>^0x[0-9A-Fa-f]*$\<close> with an
  even number of digits.
\<close>

definition arrayify :: "string \<Rightarrow> byte list option" where
  "arrayify s = (if take 2 s = ''0x'' then hexBytes (drop 2 s) else None)"

text \<open>A number in \<open>k\<close> bytes, the most significant first.\<close>

fun bigEndian :: "nat \<Rightarrow> int \<Rightarrow> byte list" where
  "bigEndian 0 n = []"
| "bigEndian (Suc k) n = bigEndian k (n div 256) @ [word_of_int (n mod 256)]"

text \<open>The lower-case hexadecimal text of bytes, two digits a byte.\<close>

definition hexChar :: "nat \<Rightarrow> char" where
  "hexChar n = ''0123456789abcdef'' ! n"

definition toHex :: "byte list \<Rightarrow> string" where
  "toHex bs =
     concat (map (\<lambda>b. [hexChar (nat (uint b div 16)), hexChar (nat (uint b mod 16))]) bs)"

text \<open>The number of bytes a \<open>0x\<close> text stands for.\<close>

definition hexDataLength :: "string \<Rightarrow> nat" where
  "hexDataLength s = (length s - 2) div 2"

section \<open>Prices\<close>

text \<open>
  \<open>ethers.utils.parseEther(x.toString())\<close>: the text of a number is plain decimal digits
  when the number is zero or between \<open>10^-6\<close> and \<open>10^21\<close> in magnitude, and \<open>parseEther\<close>
  takes at most eighteen decimals; it gives the amount in wei.
\<close>

definition parseEther :: "rat \<Rightarrow> error + rat" where
  "parseEther x =
    (if (x = 0 \<or> (1 / 10 ^ 6 \<le> \<bar>x\<bar> \<and> \<bar>x\<bar> < 10 ^ 21)) \<and> of_int \<lfloor>x * 10 ^ 18\<rfloor> = x * 10 ^ 18
     then Inr (x * 10 ^ 18) else Inl InvalidDecimalValue)"

record PriceParameters =
  pp_basePrice :: rat
  pp_extra :: rat
  pp_paymentToken :: string
  pp_reservePrice :: "rat option"

text \<open>
  \<open>_getPriceParameters(orderSide, tokenAddress, expirationTime, startAmount, endAmount,
  waitingForBestCounterOrder, englishAuctionReservePrice)\<close>; a missing \<open>endAmount\<close> is
  \<open>None\<close>, a missing reserve price is \<open>0\<close>.
\<close>

definition getPriceParameters ::
    "nat \<Rightarrow> string \<Rightarrow> rat \<Rightarrow> rat \<Rightarrow> rat option \<Rightarrow> bool \<Rightarrow> rat \<Rightarrow> error + PriceParameters" where
  "getPriceParameters orderSide tokenAddress expiration startAmount endAmount waiting reserve =
    (let priceDiff = (case endAmount of None \<Rightarrow> 0 | Some e \<Rightarrow> roundDouble (startAmount - e));
         isEther = (tokenAddress = NULL_ADDRESS)
     in
       if startAmount < 0 then Inl StartingPriceInvalid
       else if isEther \<and> waiting then Inl EnglishAuctionNeedsToken
       else if isEther \<and> orderSide = NftOrderSide_Buy then Inl OffersNeedToken
       else if priceDiff < 0 then Inl EndPriceAboveStartPrice
       else if priceDiff > 0 \<and> expiration = 0 then Inl ExpirationRequiredForPriceChange
       else if reserve \<noteq> 0 \<and> \<not> waiting then Inl ReservePriceWithoutAuction
       else if reserve \<noteq> 0 \<and> reserve < startAmount then Inl ReservePriceBelowStart
       else
         (case parseEther startAmount of
            Inl e \<Rightarrow> Inl e
          | Inr base \<Rightarrow>
             (case parseEther priceDiff of
                Inl e \<Rightarrow> Inl e
              | Inr ext \<Rightarrow>
                 (case (if reserve \<noteq> 0 then map_sum id Some (parseEther reserve) else Inr None) of
                    Inl e \<Rightarrow> Inl e
                  | Inr res \<Rightarrow>
                     Inr \<lparr> pp_basePrice = base, pp_extra = ext,
                           pp_paymentToken = toLowerCase tokenAddress,
                           pp_reservePrice = res \<rparr>))))"

section \<open>Orders and the order hash\<close>

text \<open>
  An \<open>UnhashedOrder\<close>. Of the metadata, the asset (when the metadata has one) and the schema
  name.
\<close>

record Order =
  basePrice :: rat
  calldata :: string
  englishAuctionReservePrice :: "rat option"
  exchange :: string
  expirationTime :: rat
  extra :: rat
  feeMethod :: nat
  feeRecipient :: string
  howToCall :: nat
  listingTime :: rat
  maker :: string
  makerProtocolFee :: rat
  makerReferrerFee :: rat
  makerRelayerFee :: rat
  metadata_asset :: "WyvernAsset option"
  metadata_schema :: WyvernSchemaName
  paymentToken :: string
  quantity :: rat
  replacementPattern :: string
  saleKind :: nat
  salt :: rat
  side :: nat
  staticExtradata :: string
  staticTarget :: string
  taker :: string
  takerProtocolFee :: rat
  takerRelayerFee :: rat
  target :: string
  waitingForBestCounterOrder :: bool

datatype SolidityTypes = Address | Uint256 | Uint8 | Bytes

text \<open>
  What \<open>getOrderHashHex\<close> hands to \<open>ethers.utils.solidityKeccak256\<close>: a string, the decimal
  text of a number (\<open>x.toString()\<close>, taken to be the plain digits of the number), or the
  \<open>Buffer\<close> made from a text of hexadecimal digits.
\<close>

datatype hash_value = Text string | NumberText rat | HexBuffer string

definition orderParts :: "Order \<Rightarrow> (SolidityTypes \<times> hash_value) list" where
  "orderParts order =
    [ (Address, Text (exchange order)),
      (Address, Text (maker order)),
      (Address, Text (taker order)),
      (Uint256, NumberText (makerRelayerFee order)),
      (Uint256, NumberText (takerRelayerFee order)),
      (Uint256, NumberText (makerProtocolFee order)),
      (Uint256, NumberText (takerProtocolFee order)),
      (Address, Text (feeRecipient order)),
      (Uint8, NumberText (of_nat (feeMethod order))),
      (Uint8, NumberText (of_nat (side order))),
      (Uint8, NumberText (of_nat (saleKind order))),
      (Address, Text (target order)),
      (Uint8, NumberText (of_nat (howToCall order))),
      (Bytes, HexBuffer (drop 2 (calldata order))),
      (Bytes, HexBuffer (drop 2 (replacementPattern order))),
      (Address, Text (staticTarget order)),
      (Bytes, HexBuffer (drop 2 (staticExtradata order))),
      (Address, Text (paymentToken order)),
      (Uint256, NumberText (basePrice order)),
      (Uint256, NumberText (extra order)),
      (Uint256, NumberText (listingTime order)),
      (Uint256, NumberText (expirationTime order)),
      (Uint256, NumberText (salt order)) ]"

text \<open>
  \<open>ethers.utils.solidityPack\<close>, one value: an address is the bytes of its hexadecimal text,
  bytes are taken as they are, and an unsigned integer of \<open>k\<close> bytes is a whole number written
  with the most significant byte first. The library reads the number (\<open>BigNumber.from\<close>, which
  throws when it is not whole), takes its two's complement (\<open>toTwos\<close>) and pads it to \<open>k\<close> bytes
  (\<open>zeroPad\<close>, which throws when the number has more bytes):

    \<^item> a number from \<open>0\<close> to \<open>256^k - 1\<close> is written as it is, a larger one is refused;

    \<^item> a negative number is written as its residue modulo \<open>256^k\<close>: \<open>toTwos\<close> flips the bits
      of its absolute value below \<open>8 * k\<close>, clears those up to the end of the last 26-bit
      word of the \<open>8 * k\<close> bits, keeps the bits above (\<open>twosWordBits k\<close> and up) and adds one.
      So a negative number that is a multiple of \<open>256^k\<close>, or has a bit above, is refused.

  Hence \<open>-1\<close> and \<open>256^k - 1\<close> are written with the same bytes.
\<close>

definition twosWordBits :: "nat \<Rightarrow> nat" where
  "twosWordBits k = 26 * ((8 * k + 25) div 26)"

definition packUint :: "nat \<Rightarrow> rat \<Rightarrow> byte list option" where
  "packUint k x =
    (if of_int \<lfloor>x\<rfloor> = x
        \<and> (if 0 \<le> x then x < 256 ^ k
            else - (2 ^ twosWordBits k) < x \<and> \<lfloor>x\<rfloor> mod 256 ^ k \<noteq> 0)
     then Some (bigEndian k (\<lfloor>x\<rfloor> mod 256 ^ k)) else None)"

fun solidityPack1 :: "SolidityTypes \<times> hash_value \<Rightarrow> byte list option" where
  "solidityPack1 (Address, Text s) = arrayify s"
| "solidityPack1 (Uint256, NumberText x) = packUint 32 x"
| "solidityPack1 (Uint8, NumberText x) = packUint 1 x"
| "solidityPack1 (Bytes, HexBuffer s) = hexBytes s"
| "solidityPack1 _ = None"

definition solidityPack :: "(SolidityTypes \<times> hash_value) list \<Rightarrow> byte list option" where
  "solidityPack parts = map_option concat (those (map solidityPack1 parts))"

text \<open>
  \<open>getOrderHashHex\<close>: \<open>solidityKeccak256(types, values)\<close> is \<open>keccak256\<close> of the packed values.
  \<open>keccak256\<close> is the library's; the functions take it as an argument.
\<close>

definition getOrderHashHex :: "(byte list \<Rightarrow> 'h) \<Rightarrow> Order \<Rightarrow> error + 'h" where
  "getOrderHashHex keccak256 order =
    (case solidityPack (orderParts order) of
       None \<Rightarrow> Inl InvalidHashValue
     | Some packed \<Rightarrow> Inr (keccak256 packed))"

text \<open>
  \<open>getOrderHash\<close> lower-cases \<open>feeRecipient\<close>, \<open>maker\<close> and \<open>taker\<close>. It also turns the four
  enumerations into their decimal text, which \<open>orderParts\<close> already is.
\<close>

definition orderWithStringTypes :: "Order \<Rightarrow> Order" where
  "orderWithStringTypes order =
     order \<lparr> feeRecipient := toLowerCase (feeRecipient order),
             maker := toLowerCase (maker order),
             taker := toLowerCase (taker order) \<rparr>"

definition getOrderHash :: "(byte list \<Rightarrow> 'h) \<Rightarrow> Order \<Rightarrow> error + 'h" where
  "getOrderHash keccak256 order = getOrderHashHex keccak256 (orderWithStringTypes order)"

text \<open>
  What \<open>getOrderHash\<close> does to the values, seen on the list of parts: the second, third and
  eighth (\<open>maker\<close>, \<open>taker\<close>, \<open>feeRecipient\<close>) are lower-cased.
\<close>

definition lowerText :: "SolidityTypes \<times> hash_value \<Rightarrow> SolidityTypes \<times> hash_value" where
  "lowerText p = (case p of (t, Text s) \<Rightarrow> (t, Text (toLowerCase s)) | _ \<Rightarrow> p)"

definition canonicalParts ::
    "(SolidityTypes \<times> hash_value) list \<Rightarrow> (SolidityTypes \<times> hash_value) list" where
  "canonicalParts ps =
     ps[1 := lowerText (ps ! 1), 2 := lowerText (ps ! 2), 7 := lowerText (ps ! 7)]"

text \<open>
  What the packing of a part depends on: a text up to the letter case, a number up to a
  multiple of \<open>256^k\<close>, for the \<open>k\<close> bytes of its type.
\<close>

definition uintBytes :: "SolidityTypes \<Rightarrow> nat" where
  "uintBytes t = (case t of Uint256 \<Rightarrow> 32 | Uint8 \<Rightarrow> 1 | _ \<Rightarrow> 0)"

fun canonicalValue :: "SolidityTypes \<times> hash_value \<Rightarrow> SolidityTypes \<times> hash_value" where
  "canonicalValue (t, Text s) = (t, Text (toLowerCase s))"
| "canonicalValue (t, HexBuffer s) = (t, HexBuffer (toLowerCase s))"
| "canonicalValue (t, NumberText x) = (t, NumberText (of_int (\<lfloor>x\<rfloor> mod 256 ^ uintBytes t)))"

text \<open>The bytes that are hashed: \<open>getOrderHash\<close> with the identity in the place of \<open>keccak256\<close>.\<close>

definition orderPreimage :: "Order \<Rightarrow> error + byte list" where
  "orderPreimage order = getOrderHash (\<lambda>packed. packed) order"

section \<open>Annotated function ABIs and the ABI coder\<close>

text \<open>
  The type of a function input is one of the elementary type names the source treats by
  name; array types are outside the model. \<open>FunctionInputKind\<close> comes from \<open>./types\<close>, which
  is not among the sources: the three kinds the source names, and one for any other.
\<close>

datatype abi_type =
    TAddress | TBytes20 | TBytes32 | TBool | TInt | TUint | TUint8 | TUint16 | TUint32
  | TUint64 | TUint256 | TInt256 | TBytes | TString

datatype FunctionInputKind = Replaceable | Asset | Owner | OtherKind

text \<open>
  A JavaScript value of a function input: \<open>undefined\<close>, a boolean, a number, a string, an
  array of bytes, or the text \<open>v.toString()\<close> of a value.
\<close>

datatype js_value =
    JUndefined | JBool bool | JNumber rat | JString string | JBytes "byte list"
  | JToString js_value

fun truthyJs :: "js_value \<Rightarrow> bool" where
  "truthyJs JUndefined = False"
| "truthyJs (JBool b) = b"
| "truthyJs (JNumber x) = (x \<noteq> 0)"
| "truthyJs (JString s) = (s \<noteq> [])"
| "truthyJs (JBytes bs) = True"
| "truthyJs (JToString v) = (v \<noteq> JString [] \<and> v \<noteq> JBytes [])"

record AbiInput =
  input_kind :: FunctionInputKind
  input_type :: abi_type
  input_value :: js_value

record AbiFunction =
  fn_name :: string
  fn_target :: string
  fn_inputs :: "AbiInput list"

text \<open>
  The library functions whose results depend on more than the layout of the data: how
  \<open>ethers\<close> reads a value of a static type into its 32-byte word and a value of a dynamic
  type into its bytes (\<open>None\<close> where it throws), the four-byte selector of a function,
  \<open>ethers.utils.getAddress\<close>, and the number \<open>bn.js\<close> reads from the text of a
  \<open>bignumber.js\<close> value (\<open>bigNumberToBN\<close>).
\<close>

record library =
  wordOf :: "abi_type \<Rightarrow> js_value \<Rightarrow> 256 word option"
  bytesOf :: "abi_type \<Rightarrow> js_value \<Rightarrow> byte list option"
  sighash :: "string \<Rightarrow> abi_type list \<Rightarrow> 32 word"
  getAddress :: "string \<Rightarrow> string option"
  bigNumberToBN :: "rat \<Rightarrow> rat"

definition elementaryName :: "abi_type \<Rightarrow> abi_type" where
  "elementaryName t = (case t of TInt \<Rightarrow> TInt256 | TUint \<Rightarrow> TUint256 | _ \<Rightarrow> t)"

definition isDynamic :: "abi_type \<Rightarrow> bool" where
  "isDynamic t \<longleftrightarrow> t = TString \<or> t = TBytes"

definition generateDefaultValue :: "abi_type \<Rightarrow> error + js_value" where
  "generateDefaultValue t =
    (case t of
       TAddress \<Rightarrow> Inr (JString ''0x0000000000000000000000000000000000000000'')
     | TBytes20 \<Rightarrow> Inr (JString ''0x0000000000000000000000000000000000000000'')
     | TBytes32 \<Rightarrow>
         Inr (JString ''0x0000000000000000000000000000000000000000000000000000000000000000'')
     | TBool \<Rightarrow> Inr (JBool False)
     | TInt \<Rightarrow> Inr (JNumber 0)
     | TUint \<Rightarrow> Inr (JNumber 0)
     | TUint8 \<Rightarrow> Inr (JNumber 0)
     | TUint16 \<Rightarrow> Inr (JNumber 0)
     | TUint32 \<Rightarrow> Inr (JNumber 0)
     | TUint64 \<Rightarrow> Inr (JNumber 0)
     | TUint256 \<Rightarrow> Inr (JNumber 0)
     | _ \<Rightarrow> Inl DefaultValueNotImplemented)"

text \<open>
  \<open>ethers.utils.defaultAbiCoder.encode(types, values)\<close>, the layout of the contract ABI: a
  static value is its word in the head; a dynamic value has the offset of its data in the
  head and, in the tail, its length and its bytes padded to a multiple of 32. An array of
  bytes given for \<open>bytes\<close> is taken as it is.
\<close>

definition padRight32 :: "byte list \<Rightarrow> byte list" where
  "padRight32 bs = bs @ replicate ((32 - length bs mod 32) mod 32) 0"

definition dynamicBytes :: "library \<Rightarrow> abi_type \<Rightarrow> js_value \<Rightarrow> byte list option" where
  "dynamicBytes lib t v =
    (case v of
       JBytes bs \<Rightarrow> if t = TBytes then Some bs else bytesOf lib t v
     | _ \<Rightarrow> bytesOf lib t v)"

definition encodeParam :: "library \<Rightarrow> abi_type \<times> js_value \<Rightarrow> (bool \<times> byte list) option" where
  "encodeParam lib tv =
    (case tv of (t, v) \<Rightarrow>
       if isDynamic t
       then map_option (\<lambda>bs. (True, bigEndian 32 (int (length bs)) @ padRight32 bs))
              (dynamicBytes lib t v)
       else map_option (\<lambda>w. (False, bigEndian 32 (uint w))) (wordOf lib t v))"

fun layout :: "nat \<Rightarrow> (bool \<times> byte list) list \<Rightarrow> byte list \<times> byte list" where
  "layout off [] = ([], [])"
| "layout off ((dyn, bs) # ps) =
    (if dyn
     then (case layout (off + length bs) ps of (h, t) \<Rightarrow> (bigEndian 32 (int off) @ h, bs @ t))
     else (case layout off ps of (h, t) \<Rightarrow> (bs @ h, t)))"

definition defaultAbiCoder_encode :: "library \<Rightarrow> (abi_type \<times> js_value) list \<Rightarrow> byte list option" where
  "defaultAbiCoder_encode lib tvs =
    (case those (map (encodeParam lib) tvs) of
       None \<Rightarrow> None
     | Some ps \<Rightarrow> (case layout (32 * length ps) ps of (h, t) \<Rightarrow> Some (h @ t)))"

text \<open>
  A call: \<open>0x\<close>, the selector, the encoded arguments. \<open>encodeCall\<close> and
  \<open>Interface.encodeFunctionData\<close> both produce it; the library throws when the numbers of
  types and of values differ.
\<close>

definition encodeFunctionCall ::
    "library \<Rightarrow> string \<Rightarrow> abi_type list \<Rightarrow> js_value list \<Rightarrow> error + string" where
  "encodeFunctionCall lib name types vals =
    (if length types \<noteq> length vals then Inl InvalidAbiValue
     else case defaultAbiCoder_encode lib (zip types vals) of
            None \<Rightarrow> Inl InvalidAbiValue
          | Some bs \<Rightarrow>
              Inr (''0x'' @ toHex (bigEndian 4 (uint (sighash lib name types))) @ toHex bs))"

definition encodeCall :: "library \<Rightarrow> AbiFunction \<Rightarrow> js_value list \<Rightarrow> error + string" where
  "encodeCall lib abi parameters =
     encodeFunctionCall lib (fn_name abi) (map input_type (fn_inputs abi)) parameters"

text \<open>The first error of a list of results, in the order of the list, or all the values.\<close>

fun sequenceE :: "(error + 'a) list \<Rightarrow> error + 'a list" where
  "sequenceE [] = Inr []"
| "sequenceE (r # rs) =
    (case r of
       Inl e \<Rightarrow> Inl e
     | Inr x \<Rightarrow> (case sequenceE rs of Inl e \<Rightarrow> Inl e | Inr xs \<Rightarrow> Inr (x # xs)))"

section \<open>The replacement pattern\<close>

text \<open>
  \<open>encodeReplacementPattern(abi, replaceKind, encodeToBytes)\<close>. The \<open>map\<close> gives every input
  its mask byte, its elementary type name and its value (the given one, or the default of
  its type); the \<open>reduce\<close> then goes through the inputs: an input with a falsy value is passed
  over, a static input adds its encoded width of mask bytes to \<open>output\<close>, a dynamic input
  adds the encoding of \<open>dynamicOffset\<close> to \<open>output\<close> and its encoded width of mask bytes to
  \<open>data\<close>. (The accumulator of the \<open>reduce\<close>, a running offset, is read nowhere.)
\<close>

definition dynamicOffset :: "AbiInput list \<Rightarrow> nat" where
  "dynamicOffset ins = foldl (\<lambda>len i. len + 32) 0 ins"

definition maskInput :: "FunctionInputKind \<Rightarrow> AbiInput \<Rightarrow> error + (byte \<times> abi_type \<times> js_value)" where
  "maskInput replaceKind i =
    (case (if input_value i \<noteq> JUndefined then Inr (input_value i)
           else generateDefaultValue (input_type i)) of
       Inl e \<Rightarrow> Inl e
     | Inr v \<Rightarrow>
         Inr (if input_kind i = replaceKind then 255 else 0, elementaryName (input_type i), v))"

definition maskStep ::
    "library \<Rightarrow> nat \<Rightarrow> byte list list \<times> byte list list \<Rightarrow> byte \<times> abi_type \<times> js_value
       \<Rightarrow> error + (byte list list \<times> byte list list)" where
  "maskStep lib dynOff acc m =
    (case (acc, m) of ((output, data), (bitmask, t, v)) \<Rightarrow>
       if \<not> truthyJs v then Inr (output, data)
       else
         (case defaultAbiCoder_encode lib [(t, v)] of
            None \<Rightarrow> Inl InvalidAbiValue
          | Some enc \<Rightarrow>
              (let cur = replicate (length enc) bitmask in
                 if isDynamic t
                 then (if bitmask \<noteq> 0 then Inl DynamicReplacementUnsupported
                       else Inr (output @ [bigEndian 32 (int dynOff)], data @ [cur]))
                 else Inr (output @ [cur], data))))"

fun maskReduce ::
    "library \<Rightarrow> nat \<Rightarrow> byte list list \<times> byte list list \<Rightarrow> (byte \<times> abi_type \<times> js_value) list
       \<Rightarrow> error + (byte list list \<times> byte list list)" where
  "maskReduce lib dynOff acc [] = Inr acc"
| "maskReduce lib dynOff acc (m # ms) =
    (case maskStep lib dynOff acc m of
       Inl e \<Rightarrow> Inl e
     | Inr acc' \<Rightarrow> maskReduce lib dynOff acc' ms)"

definition replacementMask :: "library \<Rightarrow> AbiFunction \<Rightarrow> FunctionInputKind \<Rightarrow> error + byte list" where
  "replacementMask lib abi replaceKind =
    (case sequenceE (map (maskInput replaceKind) (fn_inputs abi)) of
       Inl e \<Rightarrow> Inl e
     | Inr ms \<Rightarrow>
        (case maskReduce lib (dynamicOffset (fn_inputs abi)) ([], []) ms of
           Inl e \<Rightarrow> Inl e
         | Inr (output, data) \<Rightarrow> Inr (replicate 4 0 @ concat (output @ data))))"

definition encodeReplacementPattern ::
    "library \<Rightarrow> AbiFunction \<Rightarrow> FunctionInputKind \<Rightarrow> bool \<Rightarrow> error + string" where
  "encodeReplacementPattern lib abi replaceKind encodeToBytes =
    (case replacementMask lib abi replaceKind of
       Inl e \<Rightarrow> Inl e
     | Inr bitmasks \<Rightarrow>
         Inr (if encodeToBytes then ''0x'' @ toHex bitmasks
              else map (\<lambda>b. if b \<noteq> 0 then CHR ''1'' else CHR ''0'') bitmasks))"

text \<open>
  The value the pattern is computed from, for one input, and the bytes a static input
  contributes: its width of 32 bytes, \<open>0xFF\<close> when its kind is the kind to replace, and no
  bytes at all when its value is falsy.
\<close>

definition maskValue :: "AbiInput \<Rightarrow> js_value" where
  "maskValue i =
    (if input_value i \<noteq> JUndefined then input_value i
     else (case generateDefaultValue (input_type i) of Inl e \<Rightarrow> JUndefined | Inr v \<Rightarrow> v))"

definition maskOfInput :: "FunctionInputKind \<Rightarrow> AbiInput \<Rightarrow> byte list" where
  "maskOfInput replaceKind i =
    (if truthyJs (maskValue i)
     then replicate 32 (if input_kind i = replaceKind then 255 else 0)
     else [])"

text \<open>\<open>encodeDefaultCall(abi, address)\<close>: the calldata with the defaults in the replaceable inputs.\<close>

definition encodeDefaultCall :: "library \<Rightarrow> AbiFunction \<Rightarrow> string \<Rightarrow> error + string" where
  "encodeDefaultCall lib abi addr =
    (case sequenceE (map (\<lambda>i. case input_kind i of
                                 Replaceable \<Rightarrow> generateDefaultValue (input_type i)
                               | Owner \<Rightarrow> Inr (JString addr)
                               | _ \<Rightarrow> Inr (input_value i)) (fn_inputs abi)) of
       Inl e \<Rightarrow> Inl e
     | Inr parameters \<Rightarrow> encodeCall lib abi parameters)"

section \<open>Schemas, \<open>encodeSell\<close> and \<open>encodeBuy\<close>\<close>

text \<open>
  \<open>schemaMap\<close> comes from \<open>./schemas\<close>, which is not among the sources: it is an argument, a
  partial map from schema names to schemas. Of a schema the code uses its name,
  \<open>assetFromFields\<close>, \<open>functions.transfer\<close> and whether it has \<open>functions.countOf\<close> and
  \<open>functions.ownerOf\<close>.
\<close>

record AssetFields =
  field_Address :: string
  field_ID :: string
  field_Name :: string
  field_Quantity :: rat

record Schema =
  schema_label :: WyvernSchemaName
  assetFromFields :: "AssetFields \<Rightarrow> WyvernAsset"
  functions_transfer :: "WyvernAsset \<Rightarrow> AbiFunction"
  functions_countOf :: bool
  functions_ownerOf :: bool

record OrderParams =
  op_calldata :: string
  op_replacementPattern :: string
  op_target :: string

text \<open>
  \<open>ERC1155_ABI\<close> comes from \<open>./abis\<close>, which is not among the sources. \<open>encodeSell\<close> calls its
  \<open>safeTransferFrom\<close> with five arguments, the last an empty array: the function of the
  ERC-1155 standard, \<open>safeTransferFrom(address,address,uint256,uint256,bytes)\<close>.
\<close>

definition ERC1155_safeTransferFrom_types :: "abi_type list" where
  "ERC1155_safeTransferFrom_types = [TAddress, TAddress, TUint256, TUint256, TBytes]"

definition encodeSell :: "library \<Rightarrow> Schema \<Rightarrow> NftAsset \<Rightarrow> string \<Rightarrow> error + OrderParams" where
  "encodeSell lib schema asset addr =
    (case asset_contract asset of
       None \<Rightarrow> Inl TypeError
     | Some c \<Rightarrow>
        (let wyvAsset = assetFromFields schema
                          \<lparr> field_Address = contract_address c, field_ID = token_id asset,
                            field_Name = asset_name asset, field_Quantity = 1 \<rparr>;
             transfer = functions_transfer schema wyvAsset
         in case encodeFunctionCall lib ''safeTransferFrom'' ERC1155_safeTransferFrom_types
                   [ JString (toLowerCase addr), JString NULL_ADDRESS, JString (token_id asset),
                     (case wy_quantity wyvAsset of None \<Rightarrow> JUndefined | Some q \<Rightarrow> JNumber q),
                     JBytes [] ] of
              Inl e \<Rightarrow> Inl e
            | Inr cd \<Rightarrow>
               (case encodeReplacementPattern lib transfer Replaceable True of
                  Inl e \<Rightarrow> Inl e
                | Inr rp \<Rightarrow>
                    Inr \<lparr> op_calldata = cd, op_replacementPattern = rp,
                          op_target = fn_target transfer \<rparr>)))"

definition encodeBuy :: "library \<Rightarrow> Schema \<Rightarrow> WyvernAsset \<Rightarrow> string \<Rightarrow> error + OrderParams" where
  "encodeBuy lib schema asset addr =
    (let transfer = functions_transfer schema asset;
         replaceables = filter (\<lambda>i. input_kind i = Replaceable) (fn_inputs transfer);
         ownerInputs = filter (\<lambda>i. input_kind i = Owner) (fn_inputs transfer)
     in
       if length replaceables \<noteq> 1 then Inl (AmbiguousReplacementTarget (length replaceables))
       else
         (case sequenceE (map (\<lambda>i. case input_kind i of
                                      Replaceable \<Rightarrow> Inr (JString addr)
                                    | Owner \<Rightarrow> generateDefaultValue (input_type i)
                                    | _ \<Rightarrow> (if input_value i = JUndefined then Inl TypeError
                                            else Inr (JToString (input_value i))))
                              (fn_inputs transfer)) of
            Inl e \<Rightarrow> Inl e
          | Inr parameters \<Rightarrow>
             (case encodeCall lib transfer parameters of
                Inl e \<Rightarrow> Inl e
              | Inr cd \<Rightarrow>
                 (case (if ownerInputs \<noteq> [] then encodeReplacementPattern lib transfer Owner True
                        else Inr ''0x'') of
                    Inl e \<Rightarrow> Inl e
                  | Inr rp \<Rightarrow>
                      Inr \<lparr> op_calldata = cd, op_replacementPattern = rp,
                            op_target = fn_target transfer \<rparr>))))"

section \<open>Building orders\<close>

text \<open>
  \<open>generatePseudoRandomSalt\<close>, from the draw of \<open>BigNumber.random(72)\<close>: the draw times
  \<open>10^71\<close>, rounded to a whole number (a half away from zero), through \<open>bigNumberToBN\<close>.
\<close>

definition integerValue :: "rat \<Rightarrow> rat" where
  "integerValue x = (if 0 \<le> x then of_int \<lfloor>x + 1 / 2\<rfloor> else - of_int \<lfloor>- x + 1 / 2\<rfloor>)"

definition generatePseudoRandomSalt :: "library \<Rightarrow> rat \<Rightarrow> rat" where
  "generatePseudoRandomSalt lib randomNumber =
     bigNumberToBN lib (integerValue (randomNumber * 10 ^ (MAX_DIGITS_IN_UNSIGNED_256_INT - 1)))"

text \<open>The two replacement patterns the builders write out as literals.\<close>

definition SELL_REPLACEMENT_PATTERN :: string where
  "SELL_REPLACEMENT_PATTERN = ''0x000000000000000000000000000000000000000000000000000000000000000000000000ffffffffffffffffffffffffffffffffffffffffffffffffffffffffffffffff0000000000000000000000000000000000000000000000000000000000000000000000000000000000000000000000000000000000000000000000000000000000000000000000000000000000000000000000000000000000000000000000000000000000000000000000000000000000000000000000000000000000000000''"

definition BUY_REPLACEMENT_PATTERN :: string where
  "BUY_REPLACEMENT_PATTERN = ''0x00000000ffffffffffffffffffffffffffffffffffffffffffffffffffffffffffffffff00000000000000000000000000000000000000000000000000000000000000000000000000000000000000000000000000000000000000000000000000000000000000000000000000000000000000000000000000000000000000000000000000000000000000000000000000000000000000000000000000000000000000000000000000000000000000000000000000000000000000000000000000000000''"

definition WYVERN_EXCHANGE_ADDRESS :: string where
  "WYVERN_EXCHANGE_ADDRESS = ''0x7Be8076f4EA4A4AD08075C2508e481d6C946D12b''"

text \<open>
  The named arguments of \<open>_makeSellOrder\<close>. \<open>extraBountyBasisPoints\<close> is \<open>2.5\<close> and
  \<open>englishAuctionReservePrice\<close> is \<open>0\<close> when they are not given.
\<close>

record SellOrderArgs =
  arg_accountAddress :: string
  arg_asset :: NftAsset
  arg_buyerAddress :: string
  arg_endAmount :: "rat option"
  arg_englishAuctionReservePrice :: "rat option"
  arg_expirationTime :: rat
  arg_extraBountyBasisPoints :: "rat option"
  arg_listingTime :: "rat option"
  arg_paymentTokenAddress :: string
  arg_quantity :: rat
  arg_startAmount :: rat
  arg_waitForHighestBid :: bool

text \<open>
  \<open>_makeSellOrder\<close>, with the clock (\<open>now\<close>) and the random draw as arguments. The steps and
  their order are the source's: fees, schema, \<open>encodeSell\<close>, sale kind, prices, times, fee
  parameters, the test of \<open>asset.asset_contract\<close>, the order.
\<close>

definition makeSellOrder ::
    "library \<Rightarrow> (WyvernSchemaName \<Rightarrow> Schema option) \<Rightarrow> int \<Rightarrow> rat \<Rightarrow> SellOrderArgs \<Rightarrow> error + Order" where
  "makeSellOrder lib schemaMap now randomNumber args =
    (case computeFees (Some (arg_asset args))
            (case arg_extraBountyBasisPoints args of None \<Rightarrow> 5 / 2 | Some b \<Rightarrow> b)
            NftOrderSide_Sell of
       Inl e \<Rightarrow> Inl e
     | Inr fees \<Rightarrow>
    (case asset_contract (arg_asset args) of
       None \<Rightarrow> Inl TypeError
     | Some c \<Rightarrow>
    (case schemaMap (case schema_name c of None \<Rightarrow> ERC721 | Some n \<Rightarrow> n) of
       None \<Rightarrow> Inl TypeError
     | Some schema \<Rightarrow>
    (case encodeSell lib schema (arg_asset args) (arg_accountAddress args) of
       Inl e \<Rightarrow> Inl e
     | Inr params \<Rightarrow>
    (let orderSaleKind =
           (case arg_endAmount args of
              None \<Rightarrow> NftSaleKind_FixedPrice
            | Some e \<Rightarrow> if e \<noteq> arg_startAmount args then NftSaleKind_DutchAuction
                       else NftSaleKind_FixedPrice)
     in
    (case getPriceParameters NftOrderSide_Sell (arg_paymentTokenAddress args)
            (arg_expirationTime args) (arg_startAmount args) (arg_endAmount args)
            (arg_waitForHighestBid args)
            (case arg_englishAuctionReservePrice args of None \<Rightarrow> 0 | Some r \<Rightarrow> r) of
       Inl e \<Rightarrow> Inl e
     | Inr price \<Rightarrow>
    (case getTimeParameters now 0 (Some (Math_round (of_int now / 1000))) False of
       Inl e \<Rightarrow> Inl e
     | Inr tms \<Rightarrow>
    (let fp = getSellFeeParameters (totalBuyerFeeBasisPoints fees)
                (totalSellerFeeBasisPoints fees) (arg_waitForHighestBid args)
                (sellerBountyBasisPoints fees)
     in
       if asset_contract (arg_asset args) = None then Inl ContractAddressUndefined
       else
         Inr \<lparr> basePrice = pp_basePrice price,
               calldata = op_calldata params,
               englishAuctionReservePrice = pp_reservePrice price,
               exchange = toLowerCase WYVERN_EXCHANGE_ADDRESS,
               expirationTime = times_expirationTime tms,
               extra = pp_extra price,
               feeMethod = fp_feeMethod fp,
               feeRecipient = fp_feeRecipient fp,
               howToCall = HowToCall_Call,
               listingTime = times_listingTime tms,
               maker = arg_accountAddress args,
               makerProtocolFee = fp_makerProtocolFee fp,
               makerReferrerFee = fp_makerReferrerFee fp,
               makerRelayerFee = fp_makerRelayerFee fp,
               metadata_asset =
                 Some \<lparr> wy_address = toLowerCase (contract_address c),
                        wy_id = (if token_id (arg_asset args) = [] then NULL_ADDRESS
                                 else toLowerCase (token_id (arg_asset args))),
                        wy_quantity = Some 1 \<rparr>,
               metadata_schema = schema_label schema,
               paymentToken = pp_paymentToken price,
               quantity = arg_quantity args,
               replacementPattern = SELL_REPLACEMENT_PATTERN,
               saleKind = orderSaleKind,
               salt = generatePseudoRandomSalt lib randomNumber,
               side = NftOrderSide_Sell,
               staticExtradata = ''0x'',
               staticTarget = NULL_ADDRESS,
               taker = arg_buyerAddress args,
               takerProtocolFee = fp_takerProtocolFee fp,
               takerRelayerFee = fp_takerRelayerFee fp,
               target = op_target params,
               waitingForBestCounterOrder = arg_waitForHighestBid args \<rparr>))))))))"

text \<open>
  \<open>_makeMatchingOrder({accountAddress, offer, order, recipientAddress})\<close>, with the clock and
  the random draw as arguments; it returns the order and its hash. The asset of an order's
  metadata is \<open>{address, id, quantity}\<close> (as \<open>_makeSellOrder\<close> builds it), of which
  \<open>encodeSell\<close> reads \<open>asset.asset_contract.address\<close>: a \<open>TypeError\<close>. A given \<open>offer\<close> is the
  number its text denotes.
\<close>

definition makeMatchingOrder ::
    "library \<Rightarrow> (byte list \<Rightarrow> 'h) \<Rightarrow> (WyvernSchemaName \<Rightarrow> Schema option) \<Rightarrow> int \<Rightarrow> rat
       \<Rightarrow> string \<Rightarrow> rat option \<Rightarrow> Order \<Rightarrow> string \<Rightarrow> error + (Order \<times> 'h)" where
  "makeMatchingOrder lib keccak256 schemaMap now randomNumber accountAddress offer order
       recipientAddress =
    (case getAddress lib accountAddress of
       None \<Rightarrow> Inl InvalidAddress
     | Some account \<Rightarrow>
    (case getAddress lib recipientAddress of
       None \<Rightarrow> Inl InvalidAddress
     | Some recipient \<Rightarrow>
    (case (case metadata_asset order of
             None \<Rightarrow> Inl InvalidOrderMetadata
           | Some a \<Rightarrow>
              (case schemaMap (metadata_schema order) of
                 None \<Rightarrow> Inl TypeError
               | Some schema \<Rightarrow>
                   if side order = NftOrderSide_Buy then Inl TypeError
                   else encodeBuy lib schema a recipient)) of
       Inl e \<Rightarrow> Inl e
     | Inr params \<Rightarrow>
    (case getTimeParameters now 0 None False of
       Inl e \<Rightarrow> Inl e
     | Inr tms \<Rightarrow>
    (let matchingOrder =
           \<lparr> basePrice = (case offer of Some p \<Rightarrow> p | None \<Rightarrow> basePrice order),
             calldata = op_calldata params,
             englishAuctionReservePrice = None,
             exchange = exchange order,
             expirationTime = times_expirationTime tms,
             extra = 0,
             feeMethod = feeMethod order,
             feeRecipient = (if feeRecipient order = NULL_ADDRESS then OPENSEA_FEE_RECIPIENT
                             else NULL_ADDRESS),
             howToCall = howToCall order,
             listingTime = times_listingTime tms,
             maker = account,
             makerProtocolFee = makerProtocolFee order,
             makerReferrerFee = makerReferrerFee order,
             makerRelayerFee = makerRelayerFee order,
             metadata_asset = metadata_asset order,
             metadata_schema = metadata_schema order,
             paymentToken = paymentToken order,
             quantity = quantity order,
             replacementPattern = BUY_REPLACEMENT_PATTERN,
             saleKind = saleKind order,
             salt = generatePseudoRandomSalt lib randomNumber,
             side = (side order + 1) mod 2,
             staticExtradata = ''0x'',
             staticTarget = NULL_ADDRESS,
             taker = maker order,
             takerProtocolFee = takerProtocolFee order,
             takerRelayerFee = takerRelayerFee order,
             target = op_target params,
             waitingForBestCounterOrder = False \<rparr>
     in case getOrderHash keccak256 matchingOrder of
          Inl e \<Rightarrow> Inl e
        | Inr h \<Rightarrow> Inr (matchingOrder, h))))))"

section \<open>The atomic match\<close>

text \<open>
  \<open>BigNumber.div\<close> of \<open>bignumber.js\<close> rounds the quotient to twenty decimals, a half away
  from zero.
\<close>

definition BigNumber_div :: "rat \<Rightarrow> rat \<Rightarrow> rat" where
  "BigNumber_div x y = integerValue (x / y * 10 ^ 20) / 10 ^ 20"

record TxnData =
  txn_from :: string
  txn_gasLimit :: rat
  txn_value :: rat

text \<open>
  What \<open>_atomicMatch\<close> computes for the transaction, from the lower-cased address of the
  signer and the two orders: the local \<open>value\<close> (\<open>None\<close> while it is \<open>undefined\<close>) and the
  \<open>txnData\<close> it passes on. The validations before and the gas estimation after (which
  replaces \<open>gasLimit\<close> only) are calls to the chain and are left out.
\<close>

definition atomicMatch_value :: "Order \<Rightarrow> Order \<Rightarrow> rat option" where
  "atomicMatch_value buy sell =
    (if paymentToken buy = NULL_ADDRESS
     then (let fee = BigNumber_div (takerRelayerFee sell) INVERSE_BASIS_POINT * basePrice sell
           in Some (basePrice sell + fee))
     else None)"

definition atomicMatch_txnData :: "string \<Rightarrow> Order \<Rightarrow> Order \<Rightarrow> TxnData" where
  "atomicMatch_txnData accountAddress buy sell =
    \<lparr> txn_from = accountAddress,
      txn_gasLimit = 350000,
      txn_value = (if paymentToken sell = NULL_ADDRESS then basePrice sell else 0) \<rparr>"

section \<open>Ownership checks and approvals\<close>

text \<open>
  The calls to the chain are arguments: \<open>balanceOf\<close> of a token contract (\<open>None\<close> for
  \<open>undefined\<close>), \<open>ownerOf\<close> (\<open>None\<close> for a falsy owner) and the proxy registry; each may fail
  with an error of its own. A call gives the same answer when it is repeated.
\<close>

record chain =
  chain_balanceOf :: "string \<Rightarrow> string \<Rightarrow> string \<Rightarrow> error + rat option"
  chain_ownerOf :: "string \<Rightarrow> string \<Rightarrow> error + string option"
  chain_proxies :: "string \<Rightarrow> error + string option"

record AssetRef =
  ref_schemaName :: "WyvernSchemaName option"
  ref_tokenAddress :: string
  ref_tokenId :: "string option"

text \<open>One attempt of \<open>getAssetBalance\<close>: an error, a balance, or nothing (the answer was empty).\<close>

definition assetBalanceAttempt ::
    "chain \<Rightarrow> (WyvernSchemaName \<Rightarrow> Schema option) \<Rightarrow> string \<Rightarrow> AssetRef \<Rightarrow> error + rat option" where
  "assetBalanceAttempt ch schemaMap accountAddress asset =
    (case ref_tokenId asset of
       None \<Rightarrow> Inl TokenIdRequired
     | Some tokenId \<Rightarrow>
        if tokenId = [] then Inl TokenIdRequired
        else
          (case schemaMap (case ref_schemaName asset of None \<Rightarrow> ERC721 | Some n \<Rightarrow> n) of
             None \<Rightarrow> Inl TypeError
           | Some schema \<Rightarrow>
               if functions_countOf schema
               then chain_balanceOf ch (toLowerCase (ref_tokenAddress asset)) accountAddress
                      (toLowerCase tokenId)
               else if functions_ownerOf schema
               then (case chain_ownerOf ch (toLowerCase (ref_tokenAddress asset))
                            (toLowerCase tokenId) of
                       Inl e \<Rightarrow> Inl e
                     | Inr None \<Rightarrow> Inr None
                     | Inr (Some owner) \<Rightarrow>
                         if owner = [] then Inr None
                         else Inr (Some (if toLowerCase owner = toLowerCase accountAddress
                                         then 1 else 0)))
               else Inl MissingOwnershipSchema))"

text \<open>\<open>getAssetBalance(..., retries)\<close>: an empty answer is asked for again while retries are left.\<close>

fun getAssetBalance ::
    "chain \<Rightarrow> (WyvernSchemaName \<Rightarrow> Schema option) \<Rightarrow> string \<Rightarrow> AssetRef \<Rightarrow> nat \<Rightarrow> error + rat" where
  "getAssetBalance ch schemaMap accountAddress asset 0 =
    (case assetBalanceAttempt ch schemaMap accountAddress asset of
       Inl e \<Rightarrow> Inl e
     | Inr (Some b) \<Rightarrow> Inr b
     | Inr None \<Rightarrow> Inl UnableToGetOwner)"
| "getAssetBalance ch schemaMap accountAddress asset (Suc retries) =
    (case assetBalanceAttempt ch schemaMap accountAddress asset of
       Inl e \<Rightarrow> Inl e
     | Inr (Some b) \<Rightarrow> Inr b
     | Inr None \<Rightarrow> getAssetBalance ch schemaMap accountAddress asset retries)"

text \<open>\<open>_ownsAssetOnChain\<close>; \<open>getAssetBalance\<close> is called with its default of one retry.\<close>

definition ownsAssetOnChain ::
    "chain \<Rightarrow> (WyvernSchemaName \<Rightarrow> Schema option) \<Rightarrow> string \<Rightarrow> string option
       \<Rightarrow> WyvernSchemaName option \<Rightarrow> WyvernAsset \<Rightarrow> error + bool" where
  "ownsAssetOnChain ch schemaMap accountAddress proxyAddress schemaName wyAsset =
    (let asset = \<lparr> ref_schemaName = schemaName, ref_tokenAddress = wy_address wyAsset,
                   ref_tokenId = (if wy_id wyAsset = [] then None else Some (wy_id wyAsset)) \<rparr>;
         minAmount = (case wy_quantity wyAsset of None \<Rightarrow> 1 | Some q \<Rightarrow> q)
     in case getAssetBalance ch schemaMap accountAddress asset 1 of
          Inl e \<Rightarrow> Inl e
        | Inr accountBalance \<Rightarrow>
            if accountBalance \<ge> minAmount then Inr True
            else
              (case (case proxyAddress of
                       Some p \<Rightarrow> if p = [] then chain_proxies ch accountAddress else Inr (Some p)
                     | None \<Rightarrow> chain_proxies ch accountAddress) of
                 Inl e \<Rightarrow> Inl e
               | Inr None \<Rightarrow> Inr False
               | Inr (Some p) \<Rightarrow>
                  (case getAssetBalance ch schemaMap p asset 1 of
                     Inl e \<Rightarrow> Inl e
                   | Inr proxyBalance \<Rightarrow> Inr (proxyBalance \<ge> minAmount))))"

text \<open>
  The ownership verdict of \<open>_approveAll\<close> for one asset: the \<open>try\<close> around \<open>_ownsAssetOnChain\<close>
  and its \<open>catch\<close>.
\<close>

definition approveAll_isOwner ::
    "chain \<Rightarrow> (WyvernSchemaName \<Rightarrow> Schema option) \<Rightarrow> string \<Rightarrow> string option
       \<Rightarrow> WyvernSchemaName option \<Rightarrow> WyvernAsset \<Rightarrow> bool" where
  "approveAll_isOwner ch schemaMap accountAddress proxyAddress schemaName wyAsset =
    (case ownsAssetOnChain ch schemaMap accountAddress proxyAddress schemaName wyAsset of
       Inl e \<Rightarrow> True
     | Inr isOwner \<Rightarrow> isOwner)"

text \<open>
  What \<open>_approveAll\<close> does for one asset. \<open>approve\<close> stands for
  \<open>approveSemiOrNonFungibleToken\<close> on the asset's contract and token.
\<close>

definition approveAll_asset ::
    "chain \<Rightarrow> (WyvernSchemaName \<Rightarrow> Schema option) \<Rightarrow> (string \<Rightarrow> string \<Rightarrow> error + 'tx)
       \<Rightarrow> string \<Rightarrow> string option \<Rightarrow> WyvernSchemaName option \<Rightarrow> WyvernAsset \<Rightarrow> error + 'tx" where
  "approveAll_asset ch schemaMap approve accountAddress proxyAddress schemaName wyAsset =
    (if \<not> approveAll_isOwner ch schemaMap accountAddress proxyAddress schemaName wyAsset
     then Inl NotEnoughOwned
     else if schemaName \<in> {Some ERC721, Some ERC1155, Some LegacyEnjin, Some ENSShortNameAuction}
     then approve (wy_address wyAsset) (wy_id wyAsset)
     else Inl UnknownSchema)"

text \<open>
  \<open>_approveAll\<close> on its lists, once the proxy is known: every asset with the schema name at
  its index; the first failure in the order of the list fails the whole.
\<close>

definition approveAll ::
    "chain \<Rightarrow> (WyvernSchemaName \<Rightarrow> Schema option) \<Rightarrow> (string \<Rightarrow> string \<Rightarrow> error + 'tx)
       \<Rightarrow> string \<Rightarrow> string option \<Rightarrow> WyvernSchemaName list \<Rightarrow> WyvernAsset list
       \<Rightarrow> error + 'tx list" where
  "approveAll ch schemaMap approve accountAddress proxyAddress schemaNames wyAssets =
     sequenceE (map (\<lambda>(i, wyAsset).
                       approveAll_asset ch schemaMap approve accountAddress proxyAddress
                         (if i < length schemaNames then Some (schemaNames ! i) else None) wyAsset)
                    (zip [0..<length wyAssets] wyAssets))"

text \<open>
  The rule of the specification for an ownership check that raises an error: the asset
  counts as owned only when the error stems from an unsupported schema.
\<close>

definition failsOpen_spec :: "error \<Rightarrow> bool" where
  "failsOpen_spec e \<longleftrightarrow> e = MissingOwnershipSchema"

section \<open>Concrete instances\<close>

text \<open>
  The theorems below hold for every library, schema map and chain. Where a statement is
  evaluated on concrete data, it is on these: a library that reads whole numbers, decimal and
  hexadecimal texts and booleans into words, the transfer functions of the ERC-721 and
  ERC-1155 schemas of Wyvern, and a chain on which \<open>ownerOf\<close> answers nothing.
\<close>

definition decimalValue :: "string \<Rightarrow> int option" where
  "decimalValue s =
    (if s \<noteq> [] \<and> list_all (\<lambda>c. 48 \<le> (of_char c :: nat) \<and> (of_char c :: nat) \<le> 57) s
     then Some (foldl (\<lambda>a c. 10 * a + (of_char c - 48)) 0 s) else None)"

definition bytesValue :: "byte list \<Rightarrow> int" where
  "bytesValue bs = foldl (\<lambda>a b. 256 * a + uint b) 0 bs"

fun sampleWordOf :: "js_value \<Rightarrow> 256 word option" where
  "sampleWordOf JUndefined = None"
| "sampleWordOf (JBool b) = Some (if b then 1 else 0)"
| "sampleWordOf (JNumber x) =
    (if of_int \<lfloor>x\<rfloor> = x \<and> 0 \<le> x then Some (word_of_int \<lfloor>x\<rfloor>) else None)"
| "sampleWordOf (JString s) =
    (case decimalValue s of
       Some n \<Rightarrow> Some (word_of_int n)
     | None \<Rightarrow> map_option (\<lambda>bs. word_of_int (bytesValue bs)) (arrayify s))"
| "sampleWordOf (JBytes bs) = None"
| "sampleWordOf (JToString v) = sampleWordOf v"

definition sampleLibrary :: library where
  "sampleLibrary =
    \<lparr> wordOf = (\<lambda>t v. sampleWordOf v),
      bytesOf = (\<lambda>t v. case v of JString s \<Rightarrow> arrayify s | _ \<Rightarrow> None),
      sighash = (\<lambda>name types. word_of_nat (length name + 256 * length types)),
      getAddress = (\<lambda>s. if length s = 42 \<and> arrayify s \<noteq> None then Some s else None),
      bigNumberToBN = (\<lambda>x. x) \<rparr>"

definition ERC721Schema :: Schema where
  "ERC721Schema =
    \<lparr> schema_label = ERC721,
      assetFromFields = (\<lambda>f. \<lparr> wy_address = field_Address f, wy_id = field_ID f,
                               wy_quantity = None \<rparr>),
      functions_transfer = (\<lambda>a.
        \<lparr> fn_name = ''transferFrom'', fn_target = wy_address a,
          fn_inputs =
            [ \<lparr> input_kind = Owner, input_type = TAddress, input_value = JUndefined \<rparr>,
              \<lparr> input_kind = Replaceable, input_type = TAddress, input_value = JUndefined \<rparr>,
              \<lparr> input_kind = Asset, input_type = TUint256, input_value = JString (wy_id a) \<rparr> ] \<rparr>),
      functions_countOf = False,
      functions_ownerOf = True \<rparr>"

definition ERC1155Schema :: Schema where
  "ERC1155Schema =
    \<lparr> schema_label = ERC1155,
      assetFromFields = (\<lambda>f. \<lparr> wy_address = field_Address f, wy_id = field_ID f,
                               wy_quantity = Some (field_Quantity f) \<rparr>),
      functions_transfer = (\<lambda>a.
        \<lparr> fn_name = ''safeTransferFrom'', fn_target = wy_address a,
          fn_inputs =
            [ \<lparr> input_kind = Owner, input_type = TAddress, input_value = JUndefined \<rparr>,
              \<lparr> input_kind = Replaceable, input_type = TAddress, input_value = JUndefined \<rparr>,
              \<lparr> input_kind = Asset, input_type = TUint256, input_value = JString (wy_id a) \<rparr>,
              \<lparr> input_kind = OtherKind, input_type = TUint256,
                input_value = (case wy_quantity a of None \<Rightarrow> JUndefined | Some q \<Rightarrow> JNumber q) \<rparr>,
              \<lparr> input_kind = OtherKind, input_type = TBytes, input_value = JString [] \<rparr> ] \<rparr>),
      functions_countOf = True,
      functions_ownerOf = False \<rparr>"

definition sampleSchemaMap :: "WyvernSchemaName \<Rightarrow> Schema option" where
  "sampleSchemaMap n =
    (if n = ERC721 then Some ERC721Schema else if n = ERC1155 then Some ERC1155Schema else None)"

definition silentChain :: chain where
  "silentChain =
    \<lparr> chain_balanceOf = (\<lambda>c a i. Inr None),
      chain_ownerOf = (\<lambda>c i. Inr None),
      chain_proxies = (\<lambda>a. Inr None) \<rparr>"

definition sampleAccount :: string where
  "sampleAccount = ''0x5b3256965e7C3cF26E11FCAf296DfC8807C01073''"

definition sampleBuyer :: string where
  "sampleBuyer = ''0x00000000219ab540356cBB839Cbe05303d7705Fa''"

definition sampleTokenContract :: string where
  "sampleTokenContract = ''0x495f947276749Ce646f68AC8c248420045cb7b5e''"

definition sampleAsset :: NftAsset where
  "sampleAsset =
    \<lparr> asset_contract =
        Some \<lparr> contract_address = sampleTokenContract, schema_name = Some ERC1155,
               opensea_buyer_fee_basis_points = 0, opensea_seller_fee_basis_points = 250,
               dev_buyer_fee_basis_points = 0, dev_seller_fee_basis_points = 500 \<rparr>,
      collection_dev_buyer_fee_basis_points = Some 0,
      collection_dev_seller_fee_basis_points = Some 0,
      token_id = ''7'',
      asset_name = ''Seven'',
      transfer_fee = None,
      transfer_fee_payment_token = None \<rparr>"


text \<open>A fixed-price listing of an ERC-721 token for one ether, as the order book returns it.\<close>

definition sampleSellOrder :: Order where
  "sampleSellOrder =
    \<lparr> basePrice = 10 ^ 18,
      calldata = ''0x23b872dd'',
      englishAuctionReservePrice = None,
      exchange = toLowerCase WYVERN_EXCHANGE_ADDRESS,
      expirationTime = 0,
      extra = 0,
      feeMethod = FeeMethod_SplitFee,
      feeRecipient = OPENSEA_FEE_RECIPIENT,
      howToCall = HowToCall_Call,
      listingTime = 1699990000,
      maker = sampleAccount,
      makerProtocolFee = 0,
      makerReferrerFee = 0,
      makerRelayerFee = 250,
      metadata_asset = Some \<lparr> wy_address = toLowerCase sampleTokenContract, wy_id = ''7'',
                              wy_quantity = None \<rparr>,
      metadata_schema = ERC721,
      paymentToken = NULL_ADDRESS,
      quantity = 1,
      replacementPattern = ''0x00000000'',
      saleKind = NftSaleKind_FixedPrice,
      salt = 12345,
      side = NftOrderSide_Sell,
      staticExtradata = ''0x'',
      staticTarget = NULL_ADDRESS,
      taker = NULL_ADDRESS,
      takerProtocolFee = 0,
      takerRelayerFee = 250,
      target = toLowerCase sampleTokenContract,
      waitingForBestCounterOrder = False \<rparr>"

section \<open>Timing validation\<close>

lemma floor_rat_numeral_div [simp]:
  "\<lfloor>(numeral a :: rat) / numeral b\<rfloor> = numeral a div numeral b"
  by (metis floor_divide_of_int_eq of_int_numeral)

lemma Math_round_plus_int: "Math_round (x + of_int k) = Math_round x + of_int k"
proof -
  have "\<lfloor>x + of_int k + 1 / 2\<rfloor> = \<lfloor>x + 1 / 2\<rfloor> + k"
    by (metis add.assoc add.commute floor_add_int)
  then show ?thesis
    by (simp add: Math_round_def)
qed

lemma minExpiration_eq:
  "Math_round (of_int now / 1000 + MIN_EXPIRATION_SECONDS) = Math_round (of_int now / 1000) + 10"
  using Math_round_plus_int [of "of_int now / 1000" 10]
  by (simp add: MIN_EXPIRATION_SECONDS_def)

lemma isWholeNumber_0 [simp]: "isWholeNumber 0"
  by (simp add: isWholeNumber_def)

text \<open>
  Claim C3, as the specification states it, fails: half a second in the expiration is none
  of the rejections the specification lists, so by it the call succeeds; the code rejects
  the call with its whole-number check.
\<close>

theorem getTimeParameters_spec_counterexample:
  "\<not> timingRejected_spec 1700000000000 (1700000100 + 1 / 2) None False
   \<and> getTimeParameters 1700000000000 (1700000100 + 1 / 2) None False = Inl ExpirationNotWhole"
  by code_simp

text \<open>
  Claim C3, amended: \<open>_getTimeParameters\<close> fails exactly when the expiration is non-zero and
  below the rounded clock plus ten seconds, or a given non-zero listing time is below the
  rounded clock (also when the expiration is zero), or a given non-zero listing time is not
  before a non-zero expiration, or the order is an English auction with expiration zero or
  with a given non-zero listing time, or the expiration is not a whole number of seconds
  below \<open>10^21\<close>. In every other case it succeeds. A listing time of zero counts as not given.
\<close>

theorem getTimeParameters_rejects_iff:
  "(\<exists>e. getTimeParameters now expirationTimestamp listingTimestamp waiting = Inl e)
   \<longleftrightarrow>
     (expirationTimestamp \<noteq> 0 \<and> expirationTimestamp < Math_round (of_int now / 1000) + 10)
     \<or> (truthy listingTimestamp \<and> valueOr listingTimestamp 0 < Math_round (of_int now / 1000))
     \<or> (truthy listingTimestamp \<and> expirationTimestamp \<noteq> 0
          \<and> valueOr listingTimestamp 0 \<ge> expirationTimestamp)
     \<or> (waiting \<and> expirationTimestamp = 0)
     \<or> (waiting \<and> truthy listingTimestamp)
     \<or> \<not> isWholeNumber expirationTimestamp"
  unfolding getTimeParameters_def Let_def minExpiration_eq
  by auto

text \<open>
  The amended claim C3 at two calls: a listing time in the past is rejected although the
  expiration is zero, and a listing thirty seconds before an expiration a minute ahead is
  accepted.
\<close>

theorem getTimeParameters_rejects_iff_witness:
  "(\<exists>e. getTimeParameters 1700000000000 0 (Some 1600000000) False = Inl e)
   \<and> \<not> (\<exists>e. getTimeParameters 1700000000000 1700000060 (Some 1700000030) False = Inl e)"
proof -
  have r: "Math_round (of_int 1700000000000 / 1000) = 1700000000"
    by code_simp
  have w: "isWholeNumber 1700000060"
    by code_simp
  have a: "\<exists>e. getTimeParameters 1700000000000 0 (Some 1600000000) False = Inl e"
    using getTimeParameters_rejects_iff [of 1700000000000 0 "Some 1600000000" False] r
    by (simp add: truthy_def valueOr_def)
  have b: "\<not> (\<exists>e. getTimeParameters 1700000000000 1700000060 (Some 1700000030) False = Inl e)"
    using getTimeParameters_rejects_iff [of 1700000000000 1700000060 "Some 1700000030" False] r w
    by (simp add: truthy_def valueOr_def)
  from a b show ?thesis by blast
qed

section \<open>The bounty cap\<close>

text \<open>
  The sums of \<open>computeFees\<close> are sums of JavaScript numbers, hence rounded to the nearest
  double. On whole numbers below \<open>2 ^ 53\<close> in size the rounding does nothing, so for a bounty
  of whole basis points the rounded sum is the exact one.
\<close>

lemma roundHalfEven_of_int [simp]: "roundHalfEven (of_int m) = m"
  by (simp add: roundHalfEven_def Let_def)

lemma quotient_of_abs_int: "quotient_of \<bar>rat_of_int n\<bar> = (\<bar>n\<bar>, 1)"
proof -
  have "\<bar>rat_of_int n\<bar> = of_int \<bar>n\<bar>" by simp
  then show ?thesis by (simp only: quotient_of_int [unfolded Rat.of_int_def])
qed

lemma bitlen_1: "bitlen 1 = 1"
  by (simp add: bitlen_alt_def)

lemma bitlen_abs_le_53: "\<bar>n\<bar> < 2 ^ 53 \<Longrightarrow> bitlen \<bar>n\<bar> \<le> 53"
  by (rule iffD2 [OF bitlen_le_iff_power]) simp

lemma binaryExponent_of_int_le:
  assumes "\<bar>n\<bar> < 2 ^ 53"
  shows "binaryExponent (of_int n) \<le> 52"
proof -
  have "binaryExponent (rat_of_int n) \<le> bitlen \<bar>n\<bar> - bitlen 1"
    by (simp only: binaryExponent_def quotient_of_abs_int prod.case Let_def split: if_split) simp
  with bitlen_abs_le_53 [OF assms] bitlen_1 show ?thesis
    by simp
qed

lemma roundDouble_of_int:
  assumes "\<bar>n\<bar> < 2 ^ 53"
  shows "roundDouble (of_int n) = of_int n"
proof (cases "n = 0")
  case True
  then show ?thesis by (simp add: roundDouble_def)
next
  case False
  define e where "e = max (binaryExponent (rat_of_int n)) (- 1022)"
  define k where "k = nat (52 - e)"
  have "e \<le> 52"
    using binaryExponent_of_int_le [OF assms] by (simp add: e_def)
  then have u: "pow2 (e - 52) = 1 / 2 ^ k"
    by (auto simp: pow2_def k_def)
  have "rat_of_int n / (1 / 2 ^ k) = of_int (n * 2 ^ k)"
    by simp
  then have "of_int (roundHalfEven (rat_of_int n / (1 / 2 ^ k))) * (1 / 2 ^ k) = rat_of_int n"
    by (simp only: roundHalfEven_of_int) simp
  with False u show ?thesis
    by (simp add: roundDouble_def Let_def e_def [symmetric])
qed

lemma roundDouble_whole_sum:
  assumes "of_int \<lfloor>b\<rfloor> = b" and "\<bar>b\<bar> < 2 ^ 52"
  shows "roundDouble (b + OPENSEA_SELLER_BOUNTY_BASIS_POINTS) = b + OPENSEA_SELLER_BOUNTY_BASIS_POINTS"
proof -
  have "\<bar>rat_of_int \<lfloor>b\<rfloor>\<bar> < 2 ^ 52"
    using assms(2) by (simp only: assms(1))
  then have "\<bar>\<lfloor>b\<rfloor>\<bar> < 2 ^ 52"
    by (metis of_int_abs of_int_less_numeral_power_cancel_iff)
  then have "\<bar>\<lfloor>b\<rfloor> + 100\<bar> < 2 ^ 53"
    by simp
  from roundDouble_of_int [OF this] assms(1) show ?thesis
    by (simp add: OPENSEA_SELLER_BOUNTY_BASIS_POINTS_def)
qed

text \<open>
  Claim C6, as the specification states it, fails: an asset whose seller fee is 50 basis
  points and no extra bounty give a sum of 100 above the maximum of 50, and \<open>computeFees\<close>
  succeeds.
\<close>

theorem computeFees_bounty_counterexample:
  "bountyRejected_spec 0 50
   \<and> \<not> isl (computeFees
        (Some (sampleAsset \<lparr> asset_contract :=
           Some \<lparr> contract_address = sampleTokenContract, schema_name = Some ERC1155,
                  opensea_buyer_fee_basis_points = 0, opensea_seller_fee_basis_points = 50,
                  dev_buyer_fee_basis_points = 0, dev_seller_fee_basis_points = 0 \<rparr> \<rparr>))
        0 NftOrderSide_Sell)"
  by code_simp

text \<open>
  Claim C6, amended: for a sell order of an asset, \<open>computeFees\<close> fails with the bounty-cap
  error exactly when the extra seller bounty is positive and its sum with the marketplace
  bounty, as JavaScript computes it (rounded to the nearest double), strictly exceeds the
  asset's seller fee basis points; when that sum equals the maximum it succeeds and returns
  the bounty. For a bounty of whole basis points below \<open>2 ^ 52\<close> in size the sum of
  JavaScript is the exact sum, so there the comparison is the one of exact arithmetic.
\<close>

theorem computeFees_bounty_iff:
  assumes "asset_contract a = Some c"
  shows "(computeFees (Some a) b NftOrderSide_Sell = Inl BountyExceedsCap
            \<longleftrightarrow> 0 < b \<and> opensea_seller_fee_basis_points c
                          < roundDouble (b + OPENSEA_SELLER_BOUNTY_BASIS_POINTS))
         \<and> (roundDouble (b + OPENSEA_SELLER_BOUNTY_BASIS_POINTS) = opensea_seller_fee_basis_points c
              \<longrightarrow> (\<exists>f. computeFees (Some a) b NftOrderSide_Sell = Inr f
                        \<and> sellerBountyBasisPoints f = b))
         \<and> (of_int \<lfloor>b\<rfloor> = b \<and> \<bar>b\<bar> < 2 ^ 52
              \<longrightarrow> (computeFees (Some a) b NftOrderSide_Sell = Inl BountyExceedsCap
                    \<longleftrightarrow> 0 < b \<and> opensea_seller_fee_basis_points c
                                  < b + OPENSEA_SELLER_BOUNTY_BASIS_POINTS))"
proof -
  have iff: "computeFees (Some a) b NftOrderSide_Sell = Inl BountyExceedsCap
            \<longleftrightarrow> 0 < b \<and> opensea_seller_fee_basis_points c
                          < roundDouble (b + OPENSEA_SELLER_BOUNTY_BASIS_POINTS)"
    using assms
    by (auto simp: computeFees_def feeSchedule_def Let_def split: option.splits)
  have boundary: "roundDouble (b + OPENSEA_SELLER_BOUNTY_BASIS_POINTS) = opensea_seller_fee_basis_points c
              \<longrightarrow> (\<exists>f. computeFees (Some a) b NftOrderSide_Sell = Inr f
                        \<and> sellerBountyBasisPoints f = b)"
    using assms
    by (auto simp: computeFees_def feeSchedule_def Let_def split: option.splits)
  from iff boundary roundDouble_whole_sum [of b] show ?thesis
    by simp
qed

text \<open>
  The amended claim C6 on an asset with a seller fee of 250 basis points: a bounty of 151 is
  refused, a bounty of 150 (the boundary) is accepted. With a seller fee of 300 basis points,
  the bounty \<open>200.00000000000003\<close> (the double next above 200) is accepted: its exact sum with
  100 is above 300, the sum of JavaScript is 300.
\<close>

theorem computeFees_bounty_iff_witness:
  "computeFees (Some sampleAsset) 151 NftOrderSide_Sell = Inl BountyExceedsCap
   \<and> (\<exists>f. computeFees (Some sampleAsset) 150 NftOrderSide_Sell = Inr f
            \<and> sellerBountyBasisPoints f = 150)
   \<and> 300 < roundDouble 200.00000000000003 + OPENSEA_SELLER_BOUNTY_BASIS_POINTS
   \<and> (\<exists>f. computeFees
              (Some (sampleAsset \<lparr> asset_contract :=
                 Some \<lparr> contract_address = sampleTokenContract, schema_name = Some ERC1155,
                        opensea_buyer_fee_basis_points = 0,
                        opensea_seller_fee_basis_points = 300,
                        dev_buyer_fee_basis_points = 0, dev_seller_fee_basis_points = 0 \<rparr> \<rparr>))
              (roundDouble 200.00000000000003) NftOrderSide_Sell = Inr f
            \<and> sellerBountyBasisPoints f = roundDouble 200.00000000000003)"
proof -
  obtain c where c: "asset_contract sampleAsset = Some c"
    and s: "opensea_seller_fee_basis_points c = 250"
    by (simp add: sampleAsset_def)
  have r: "roundDouble (151 + OPENSEA_SELLER_BOUNTY_BASIS_POINTS) = 251"
    "roundDouble (150 + OPENSEA_SELLER_BOUNTY_BASIS_POINTS) = 250"
    by code_simp+
  from computeFees_bounty_iff [OF c, of 151] computeFees_bounty_iff [OF c, of 150] s r
  have one: "computeFees (Some sampleAsset) 151 NftOrderSide_Sell = Inl BountyExceedsCap
     \<and> (\<exists>f. computeFees (Some sampleAsset) 150 NftOrderSide_Sell = Inr f
            \<and> sellerBountyBasisPoints f = 150)"
    by simp
  define a where "a = sampleAsset \<lparr> asset_contract :=
                 Some \<lparr> contract_address = sampleTokenContract, schema_name = Some ERC1155,
                        opensea_buyer_fee_basis_points = 0,
                        opensea_seller_fee_basis_points = 300,
                        dev_buyer_fee_basis_points = 0, dev_seller_fee_basis_points = 0 \<rparr> \<rparr>"
  obtain c' where c': "asset_contract a = Some c'"
    and s': "opensea_seller_fee_basis_points c' = 300"
    by (simp add: a_def)
  have exact: "300 < roundDouble 200.00000000000003 + OPENSEA_SELLER_BOUNTY_BASIS_POINTS"
    by code_simp
  have rounded: "roundDouble (roundDouble 200.00000000000003 + OPENSEA_SELLER_BOUNTY_BASIS_POINTS) = 300"
    by code_simp
  from computeFees_bounty_iff [OF c', of "roundDouble 200.00000000000003"] s' rounded
  have "\<exists>f. computeFees (Some a) (roundDouble 200.00000000000003) NftOrderSide_Sell = Inr f
            \<and> sellerBountyBasisPoints f = roundDouble 200.00000000000003"
    by simp
  with one exact show ?thesis
    unfolding a_def by blast
qed

section \<open>The value of the match transaction\<close>

lemma atomicMatch_txnData_value:
  "paymentToken sell = NULL_ADDRESS \<Longrightarrow> txn_value (atomicMatch_txnData acc buy sell) = basePrice sell"
  by (simp add: atomicMatch_txnData_def)

text \<open>
  Claim C7 on a listing of one ether with a taker relayer fee of 250 basis points, paid in
  the native asset: \<open>_atomicMatch\<close> computes the value of the claim, 1.025 ether, into its
  local \<open>value\<close>, and puts the base price alone, one ether, into the transaction data.
\<close>

theorem atomicMatch_value_not_attached:
  "atomicMatch_value (sampleSellOrder \<lparr> side := NftOrderSide_Buy \<rparr>) sampleSellOrder
     = Some (1025 * 10 ^ 15)
   \<and> txn_value (atomicMatch_txnData (toLowerCase sampleBuyer)
        (sampleSellOrder \<lparr> side := NftOrderSide_Buy \<rparr>) sampleSellOrder) = 10 ^ 18"
  by code_simp

section \<open>Ownership errors in the approval flow\<close>

lemma approveAll_isOwner_on_error:
  "ownsAssetOnChain ch sm acc proxy sn wy = Inl e \<Longrightarrow> approveAll_isOwner ch sm acc proxy sn wy"
  by (simp add: approveAll_isOwner_def)

lemma approveAll_asset_on_error:
  assumes "ownsAssetOnChain ch sm acc proxy sn wy = Inl e"
      and "sn \<in> {Some ERC721, Some ERC1155, Some LegacyEnjin, Some ENSShortNameAuction}"
  shows "approveAll_asset ch sm approve acc proxy sn wy = approve (wy_address wy) (wy_id wy)"
  using assms by (simp add: approveAll_asset_def approveAll_isOwner_def)

text \<open>
  Claim C9 on an ERC-721 token whose \<open>ownerOf\<close> call answers nothing, on both attempts: the
  ownership check raises "Unable to get current owner from smart contract", which does not
  stem from an unsupported schema, and \<open>_approveAll\<close> goes on to the approval as if the asset
  were owned.
\<close>

theorem approveAll_fails_open_on_any_error:
  "ownsAssetOnChain silentChain sampleSchemaMap sampleAccount (Some sampleBuyer) (Some ERC721)
      \<lparr> wy_address = sampleTokenContract, wy_id = ''7'', wy_quantity = None \<rparr>
     = Inl UnableToGetOwner
   \<and> \<not> failsOpen_spec UnableToGetOwner
   \<and> approveAll_asset silentChain sampleSchemaMap (\<lambda>tokenAddress tokenId. Inr tokenAddress)
        sampleAccount (Some sampleBuyer) (Some ERC721)
        \<lparr> wy_address = sampleTokenContract, wy_id = ''7'', wy_quantity = None \<rparr>
     = Inr sampleTokenContract"
  by code_simp

section \<open>The times of a sell order\<close>








section \<open>The counter-order\<close>

lemma getTimeParameters_matching:
  "getTimeParameters now 0 None False =
     Inr \<lparr> times_expirationTime = 0,
           times_listingTime = Math_round (of_int now / 1000 - 100) \<rparr>"
  by (simp add: getTimeParameters_def Let_def truthy_def valueOr_def)

text \<open>
  The counter-order to the listing of an ERC-721 token (\<open>sampleSellOrder\<close>), evaluated once:
  its expiration time and the byte lengths of its calldata and of its replacement pattern.
\<close>

lemma sampleMatch_evaluated:
  "(case makeMatchingOrder sampleLibrary (\<lambda>packed. packed) sampleSchemaMap 1700000000000 (1 / 3)
           sampleBuyer None sampleSellOrder sampleBuyer of
      Inl e \<Rightarrow> False
    | Inr (m, h) \<Rightarrow>
        expirationTime m = 0
        \<and> hexDataLength (calldata m) = 100
        \<and> hexDataLength (replacementPattern m) = 196)"
  by code_simp

lemma sampleMatch_succeeds:
  "\<exists>m h. makeMatchingOrder sampleLibrary (\<lambda>packed. packed) sampleSchemaMap 1700000000000 (1 / 3)
            sampleBuyer None sampleSellOrder sampleBuyer = Inr (m, h)"
  using sampleMatch_evaluated by (auto split: sum.splits)

text \<open>
  Claim C8, as the specification states it, fails: the counter-order to \<open>sampleSellOrder\<close>
  built at the clock 1700000000000 has expiration time 0, not the clock plus one week.
\<close>

theorem makeMatchingOrder_spec_counterexample:
  "(case makeMatchingOrder sampleLibrary (\<lambda>packed. packed) sampleSchemaMap 1700000000000 (1 / 3)
           sampleBuyer None sampleSellOrder sampleBuyer of
      Inl e \<Rightarrow> False
    | Inr (m, h) \<Rightarrow>
        expirationTime m = 0
        \<and> expirationTime m
            \<noteq> Math_round (of_int 1700000000000 / 1000) + ORDER_MATCHING_LATENCY_SECONDS)"
proof -
  have "Math_round (of_int 1700000000000 / 1000) + ORDER_MATCHING_LATENCY_SECONDS \<noteq> 0"
    by code_simp
  with sampleMatch_evaluated show ?thesis
    by (auto split: sum.splits)
qed

text \<open>
  Claim C8, amended: the counter-order that \<open>_makeMatchingOrder\<close> returns for an order has
  the other side, the salt drawn for it by \<open>generatePseudoRandomSalt\<close>, \<open>extra\<close> zero,
  expiration time 0 (it never expires) and, as listing time, the clock in seconds less 100.
\<close>

theorem makeMatchingOrder_fields:
  assumes "makeMatchingOrder lib keccak256 sm now r acc offer ord rcp = Inr (m, h)"
  shows "side m \<noteq> side ord
         \<and> salt m = generatePseudoRandomSalt lib r
         \<and> extra m = 0
         \<and> expirationTime m = 0
         \<and> listingTime m = Math_round (of_int now / 1000 - 100)"
proof -
  have "(side ord + 1) mod 2 \<noteq> side ord"
    by presburger
  with assms show ?thesis
    unfolding makeMatchingOrder_def getTimeParameters_matching Let_def
    by (auto split: sum.splits option.splits if_splits)
qed

text \<open>The amended claim C8 on the counter-order to \<open>sampleSellOrder\<close>.\<close>

theorem makeMatchingOrder_fields_witness:
  "\<exists>m h. makeMatchingOrder sampleLibrary (\<lambda>packed. packed) sampleSchemaMap 1700000000000 (1 / 3)
            sampleBuyer None sampleSellOrder sampleBuyer = Inr (m, h)
     \<and> side m \<noteq> side sampleSellOrder
     \<and> salt m = generatePseudoRandomSalt sampleLibrary (1 / 3)
     \<and> extra m = 0
     \<and> expirationTime m = 0
     \<and> listingTime m = 1699999900"
proof -
  have r: "Math_round (of_int 1700000000000 / 1000 - 100) = 1699999900"
    by code_simp
  from sampleMatch_succeeds obtain m h where
    mh: "makeMatchingOrder sampleLibrary (\<lambda>packed. packed) sampleSchemaMap 1700000000000 (1 / 3)
           sampleBuyer None sampleSellOrder sampleBuyer = Inr (m, h)"
    by blast
  from makeMatchingOrder_fields [OF mh] r mh show ?thesis
    by auto
qed

section \<open>The order hash\<close>

lemma toLowerChar_cases:
  "toLowerChar c = c \<or> (c, toLowerChar c) \<in> set upperToLower"
  by (auto simp: toLowerChar_def split: option.splits dest: map_of_SomeD)

lemma hexDigit_upperToLower_all:
  "\<forall>p \<in> set upperToLower. hexDigit (snd p) = hexDigit (fst p)"
  by code_simp

lemma hexDigit_upperToLower:
  "(c, l) \<in> set upperToLower \<Longrightarrow> hexDigit l = hexDigit c"
  using hexDigit_upperToLower_all by fastforce

lemma hexDigit_toLowerChar [simp]: "hexDigit (toLowerChar c) = hexDigit c"
  using toLowerChar_cases [of c] hexDigit_upperToLower [of c "toLowerChar c"]
  by auto

lemma hexBytes_toLowerCase [simp]: "hexBytes (toLowerCase s) = hexBytes s"
  by (induction s rule: hexBytes.induct) (simp_all add: toLowerCase_def)

lemma hexBytes_case: "toLowerCase s = toLowerCase s' \<Longrightarrow> hexBytes s = hexBytes s'"
  by (metis hexBytes_toLowerCase)

lemma drop_toLowerCase: "drop n (toLowerCase s) = toLowerCase (drop n s)"
  by (simp add: toLowerCase_def drop_map)

lemma arrayify_case:
  assumes "toLowerCase s = toLowerCase s'" and "take 2 s = take 2 s'"
  shows "arrayify s = arrayify s'"
proof -
  have "toLowerCase (drop 2 s) = toLowerCase (drop 2 s')"
    using assms(1) by (metis drop_toLowerCase)
  then have "hexBytes (drop 2 s) = hexBytes (drop 2 s')"
    by (rule hexBytes_case)
  with assms(2) show ?thesis
    by (simp add: arrayify_def)
qed

lemma getOrderHash_preimage:
  "getOrderHash k a = map_sum (\<lambda>e. e) k (orderPreimage a)"
  by (simp add: orderPreimage_def getOrderHash_def getOrderHashHex_def split: option.splits)

lemma length_orderParts [simp]: "length (orderParts a) = 23"
  by (simp add: orderParts_def)




lemma getOrderHash_lowered_fields:
  assumes "toLowerCase x = toLowerCase y"
  shows "getOrderHash k (a \<lparr> maker := x \<rparr>) = getOrderHash k (a \<lparr> maker := y \<rparr>)"
    and "getOrderHash k (a \<lparr> taker := x \<rparr>) = getOrderHash k (a \<lparr> taker := y \<rparr>)"
    and "getOrderHash k (a \<lparr> feeRecipient := x \<rparr>) = getOrderHash k (a \<lparr> feeRecipient := y \<rparr>)"
  using assms
  by (simp_all add: getOrderHash_def getOrderHashHex_def orderParts_def orderWithStringTypes_def)


lemma solidityPack_Nil [simp]: "solidityPack [] = Some []"
  by (simp add: solidityPack_def)



section \<open>Big-endian numbers\<close>

lemma length_bigEndian [simp]: "length (bigEndian k n) = k"
  by (induction k arbitrary: n) simp_all






section \<open>Hexadecimal text up to the letter case\<close>

lemma toLowerChar_fixed_all:
  "\<forall>p \<in> set upperToLower. toLowerChar (snd p) = snd p"
  by code_simp

lemma toLowerChar_idem [simp]: "toLowerChar (toLowerChar c) = toLowerChar c"
  using toLowerChar_cases [of c] toLowerChar_fixed_all by fastforce

lemma toLowerCase_idem [simp]: "toLowerCase (toLowerCase s) = toLowerCase s"
  by (simp add: toLowerCase_def)













section \<open>What the packing of a part depends on\<close>



lemma canonicalValue_lowerText [simp]: "canonicalValue (lowerText v) = canonicalValue v"
  by (cases v rule: canonicalValue.cases) (simp_all add: lowerText_def)

lemma fst_lowerText [simp]: "fst (lowerText v) = fst v"
  by (cases v rule: canonicalValue.cases) (simp_all add: lowerText_def)

lemma lowerText_number [simp]: "lowerText (t, NumberText x) = (t, NumberText x)"
  by (simp add: lowerText_def)

lemma length_canonicalParts [simp]: "length (canonicalParts ps) = length ps"
  by (simp add: canonicalParts_def)




lemma length_orderParts_lowered [simp]: "length (orderParts (orderWithStringTypes a)) = 23"
  by (simp add: orderParts_def)


section \<open>A change of one field of an order\<close>











text \<open>
  The listing \<open>sampleSellOrder\<close> can be hashed, and so can it with another salt and with
  another price.
\<close>

lemma samplePreimage_succeeds: "\<not> isl (orderPreimage sampleSellOrder)"
  by code_simp




text \<open>
  A negative number is packed as its residue modulo \<open>2 ^ 256\<close>: the salts \<open>-1\<close> and
  \<open>2 ^ 256 - 1\<close> give the same hash, and an order with the salt \<open>-1\<close> can be hashed.
\<close>

lemma getOrderHash_salt_modulo:
  "getOrderHash k (a \<lparr> salt := - 1 \<rparr>) = getOrderHash k (a \<lparr> salt := 2 ^ 256 - 1 \<rparr>)"
proof -
  have "packUint 32 (- 1) = packUint 32 (2 ^ 256 - 1)"
    by code_simp
  then show ?thesis
    by (simp add: getOrderHash_def getOrderHashHex_def orderParts_def orderWithStringTypes_def
        solidityPack_def)
qed

lemma samplePreimage_negative_salt_succeeds:
  "\<not> isl (orderPreimage (sampleSellOrder \<lparr> salt := - 1 \<rparr>))"
  by code_simp

section \<open>Letter case of addresses\<close>

text \<open>
  Claim C2, as the specification states it, fails: \<open>getOrderHash\<close> hands the exchange address
  to the hash as it is given, not lower-cased, and the address in upper case, which
  \<open>toUpperCase\<close> writes with \<open>0X\<close>, cannot be hashed while the same address in lower case can.
\<close>

theorem getOrderHash_case_counterexample:
  "toLowerCase ''0X7BE8076F4EA4A4AD08075C2508E481D6C946D12B'' = toLowerCase WYVERN_EXCHANGE_ADDRESS
   \<and> exchange (orderWithStringTypes (sampleSellOrder \<lparr> exchange := WYVERN_EXCHANGE_ADDRESS \<rparr>))
       \<noteq> toLowerCase WYVERN_EXCHANGE_ADDRESS
   \<and> isl (getOrderHash (\<lambda>packed. packed)
            (sampleSellOrder \<lparr> exchange := ''0X7BE8076F4EA4A4AD08075C2508E481D6C946D12B'' \<rparr>))
   \<and> \<not> isl (getOrderHash (\<lambda>packed. packed)
              (sampleSellOrder \<lparr> exchange := toLowerCase WYVERN_EXCHANGE_ADDRESS \<rparr>))"
  by code_simp

lemma getOrderHash_address_parts:
  assumes "arrayify x = arrayify y"
  shows "getOrderHash k (a \<lparr> exchange := x \<rparr>) = getOrderHash k (a \<lparr> exchange := y \<rparr>)"
    and "getOrderHash k (a \<lparr> target := x \<rparr>) = getOrderHash k (a \<lparr> target := y \<rparr>)"
    and "getOrderHash k (a \<lparr> staticTarget := x \<rparr>) = getOrderHash k (a \<lparr> staticTarget := y \<rparr>)"
    and "getOrderHash k (a \<lparr> paymentToken := x \<rparr>) = getOrderHash k (a \<lparr> paymentToken := y \<rparr>)"
  using assms
  by (simp_all add: getOrderHash_def getOrderHashHex_def orderParts_def orderWithStringTypes_def
      solidityPack_def)

text \<open>
  Claim C2, amended: \<open>getOrderHash\<close> lower-cases \<open>maker\<close>, \<open>taker\<close> and \<open>feeRecipient\<close>, so the
  hash is the same for any two spellings of such an address that agree in lower case. The
  exchange, target, static target and payment token addresses are hashed as given; the hash
  is the same for two spellings that agree in lower case and in their first two characters
  (the \<open>0x\<close>), because the packing reads hexadecimal digits of either case.
\<close>

theorem getOrderHash_address_case:
  assumes "toLowerCase x = toLowerCase y"
  shows "getOrderHash k (a \<lparr> maker := x \<rparr>) = getOrderHash k (a \<lparr> maker := y \<rparr>)
         \<and> getOrderHash k (a \<lparr> taker := x \<rparr>) = getOrderHash k (a \<lparr> taker := y \<rparr>)
         \<and> getOrderHash k (a \<lparr> feeRecipient := x \<rparr>) = getOrderHash k (a \<lparr> feeRecipient := y \<rparr>)
         \<and> (take 2 x = take 2 y \<longrightarrow>
               getOrderHash k (a \<lparr> exchange := x \<rparr>) = getOrderHash k (a \<lparr> exchange := y \<rparr>)
               \<and> getOrderHash k (a \<lparr> target := x \<rparr>) = getOrderHash k (a \<lparr> target := y \<rparr>)
               \<and> getOrderHash k (a \<lparr> staticTarget := x \<rparr>)
                   = getOrderHash k (a \<lparr> staticTarget := y \<rparr>)
               \<and> getOrderHash k (a \<lparr> paymentToken := x \<rparr>)
                   = getOrderHash k (a \<lparr> paymentToken := y \<rparr>))"
  using getOrderHash_lowered_fields [OF assms, of k a]
    getOrderHash_address_parts [OF arrayify_case [OF assms], of k a]
  by simp

text \<open>
  The amended claim C2 on \<open>sampleSellOrder\<close> and a checksummed address, as maker and as
  exchange.
\<close>

theorem getOrderHash_address_case_witness:
  "getOrderHash length (sampleSellOrder \<lparr> maker := sampleAccount \<rparr>)
     = getOrderHash length (sampleSellOrder \<lparr> maker := toLowerCase sampleAccount \<rparr>)
   \<and> getOrderHash length (sampleSellOrder \<lparr> exchange := sampleAccount \<rparr>)
     = getOrderHash length (sampleSellOrder \<lparr> exchange := toLowerCase sampleAccount \<rparr>)
   \<and> \<not> isl (getOrderHash length (sampleSellOrder \<lparr> maker := sampleAccount \<rparr>))"
proof -
  have l: "toLowerCase sampleAccount = toLowerCase (toLowerCase sampleAccount)"
    by code_simp
  have t: "take 2 sampleAccount = take 2 (toLowerCase sampleAccount)"
    by code_simp
  have m: "sampleSellOrder \<lparr> maker := sampleAccount \<rparr> = sampleSellOrder"
    by (simp add: sampleSellOrder_def)
  have "\<not> isl (getOrderHash length sampleSellOrder)"
    using samplePreimage_succeeds
    by (cases "orderPreimage sampleSellOrder") (simp_all add: getOrderHash_preimage)
  with getOrderHash_address_case [OF l, of length sampleSellOrder] t m show ?thesis
    by simp
qed

section \<open>The replacement pattern of static inputs\<close>

lemma length_toHex [simp]: "length (toHex bs) = 2 * length bs"
  by (induction bs) (simp_all add: toHex_def)

lemma hexDataLength_call [simp]: "hexDataLength (''0x'' @ toHex a @ toHex b) = length a + length b"
  by (simp add: hexDataLength_def)

lemma isDynamic_elementaryName [simp]: "isDynamic (elementaryName t) = isDynamic t"
  by (cases t) (simp_all add: elementaryName_def isDynamic_def)

lemma sequenceE_map_Inr:
  "sequenceE (map f xs) = Inr ys \<Longrightarrow> map f xs = map Inr ys"
  by (induction xs arbitrary: ys) (auto split: sum.splits)

lemma maskInput_Inr:
  assumes "maskInput rk i = Inr m"
  shows "m = (if input_kind i = rk then 255 else 0, elementaryName (input_type i), maskValue i)"
  using assms by (auto simp: maskInput_def maskValue_def split: sum.splits if_splits)

lemma maskInputs_Inr:
  assumes "sequenceE (map (maskInput rk) ins) = Inr ms"
  shows "ms = map (\<lambda>i. (if input_kind i = rk then 255 else 0, elementaryName (input_type i),
                       maskValue i)) ins"
  using assms
proof (induction ins arbitrary: ms)
  case Nil
  then show ?case by simp
next
  case (Cons i ins)
  then show ?case
    by (auto split: sum.splits dest: maskInput_Inr)
qed

lemma encodeParam_static:
  assumes "\<not> isDynamic t" and "encodeParam lib (t, v) = Some p"
  shows "fst p = False \<and> length (snd p) = 32"
  using assms by (auto simp: encodeParam_def)

lemma encode_single_static:
  assumes "\<not> isDynamic t" and "defaultAbiCoder_encode lib [(t, v)] = Some enc"
  shows "length enc = 32"
  using assms
  by (auto simp: defaultAbiCoder_encode_def encodeParam_def split: option.splits)

lemma maskStep_static:
  assumes "\<not> isDynamic t" and "maskStep lib d (out, dat) (b, t, v) = Inr (out', dat')"
  shows "concat out' = concat out @ (if truthyJs v then replicate 32 b else []) \<and> dat' = dat"
  using assms
  by (auto simp: maskStep_def Let_def split: if_splits option.splits dest: encode_single_static)

lemma maskReduce_static:
  assumes "\<forall>m \<in> set ms. \<not> isDynamic (fst (snd m))"
      and "maskReduce lib d (out, dat) ms = Inr (out', dat')"
  shows "concat out' = concat out @ concat (map (\<lambda>(b, t, v). if truthyJs v then replicate 32 b else []) ms)
         \<and> dat' = dat"
  using assms
proof (induction ms arbitrary: out dat)
  case Nil
  then show ?case by simp
next
  case (Cons m ms)
  obtain b t v where m: "m = (b, t, v)"
    by (cases m) auto
  from Cons.prems(2) m obtain o1 d1 where
    step: "maskStep lib d (out, dat) (b, t, v) = Inr (o1, d1)"
    and rest: "maskReduce lib d (o1, d1) ms = Inr (out', dat')"
    by (auto split: sum.splits)
  from Cons.prems(1) m have "\<not> isDynamic t"
    by simp
  from maskStep_static [OF this step]
  have s: "concat o1 = concat out @ (if truthyJs v then replicate 32 b else [])" and d: "d1 = dat"
    by simp_all
  from Cons.IH [OF _ rest] Cons.prems(1)
  have "concat out' = concat o1 @ concat (map (\<lambda>(b, t, v). if truthyJs v then replicate 32 b else []) ms)
        \<and> dat' = d1"
    by simp
  with s d m show ?case by simp
qed

lemma replacementMask_static_bytes:
  assumes "\<forall>i \<in> set (fn_inputs abi). \<not> isDynamic (input_type i)"
      and "replacementMask lib abi rk = Inr m"
  shows "m = replicate 4 0 @ concat (map (maskOfInput rk) (fn_inputs abi))"
proof -
  from assms(2) obtain ms out dat where
    ms: "sequenceE (map (maskInput rk) (fn_inputs abi)) = Inr ms"
    and red: "maskReduce lib (dynamicOffset (fn_inputs abi)) ([], []) ms = Inr (out, dat)"
    and m: "m = replicate 4 0 @ concat (out @ dat)"
    by (auto simp: replacementMask_def split: sum.splits)
  note msd = maskInputs_Inr [OF ms]
  have "\<forall>m \<in> set ms. \<not> isDynamic (fst (snd m))"
    using assms(1) msd by auto
  from maskReduce_static [OF this red]
  have "concat out = concat (map (\<lambda>(b, t, v). if truthyJs v then replicate 32 b else []) ms)"
    and "dat = []"
    by simp_all
  with m msd show ?thesis
    by (simp add: maskOfInput_def [abs_def] o_def)
qed

lemma length_static_mask:
  "length (concat (map (maskOfInput rk) ins)) = 32 * length (filter (\<lambda>i. truthyJs (maskValue i)) ins)"
  by (induction ins) (simp_all add: maskOfInput_def)

lemma set_static_mask:
  "b \<in> set (concat (map (maskOfInput rk) ins)) \<Longrightarrow> b = 0 \<or> b = 255"
  by (auto simp: maskOfInput_def split: if_splits)

lemma layout_static:
  assumes "\<forall>p \<in> set ps. fst p = False \<and> length (snd p) = 32"
  shows "length (fst (layout off ps)) = 32 * length ps \<and> snd (layout off ps) = []"
  using assms
proof (induction ps arbitrary: off)
  case Nil
  then show ?case by simp
next
  case (Cons p ps)
  obtain bs where p: "p = (False, bs)" and bs: "length bs = 32"
    using Cons.prems by (cases p) auto
  have "layout off (p # ps) = (bs @ fst (layout off ps), snd (layout off ps))"
    using p by (simp add: case_prod_beta)
  moreover have "length (fst (layout off ps)) = 32 * length ps \<and> snd (layout off ps) = []"
    using Cons.IH [of off] Cons.prems by simp
  ultimately show ?case
    using bs by simp
qed

lemma those_map_Some:
  "those (map f xs) = Some ys \<Longrightarrow> map f xs = map Some ys"
  by (induction xs arbitrary: ys) (auto split: option.splits)

lemma encode_static_length:
  assumes "\<forall>tv \<in> set tvs. \<not> isDynamic (fst tv)"
      and "defaultAbiCoder_encode lib tvs = Some bs"
  shows "length bs = 32 * length tvs"
proof -
  from assms(2) obtain ps where ps: "those (map (encodeParam lib) tvs) = Some ps"
    and bs: "bs = fst (layout (32 * length ps) ps) @ snd (layout (32 * length ps) ps)"
    by (auto simp: defaultAbiCoder_encode_def split: option.splits prod.splits)
  note e = those_map_Some [OF ps]
  then have len: "length ps = length tvs"
    by (metis length_map)
  have "\<forall>p \<in> set ps. fst p = False \<and> length (snd p) = 32"
  proof
    fix p assume "p \<in> set ps"
    then obtain n where n: "n < length ps" and p: "p = ps ! n"
      by (metis in_set_conv_nth)
    with e len have "encodeParam lib (tvs ! n) = Some p"
      by (metis length_map nth_map option.inject)
    moreover have "\<not> isDynamic (fst (tvs ! n))"
      using assms(1) n len by simp
    ultimately show "fst p = False \<and> length (snd p) = 32"
      using encodeParam_static [of "fst (tvs ! n)" lib "snd (tvs ! n)" p] by simp
  qed
  from layout_static [OF this, of "32 * length ps"] bs len show ?thesis
    by simp
qed

lemma encodeCall_static_length:
  assumes "\<forall>i \<in> set (fn_inputs abi). \<not> isDynamic (input_type i)"
      and "encodeCall lib abi ps = Inr cd"
  shows "hexDataLength cd = 4 + 32 * length (fn_inputs abi)"
proof -
  from assms(2) obtain bs where
    len: "length (map input_type (fn_inputs abi)) = length ps"
    and bs: "defaultAbiCoder_encode lib (zip (map input_type (fn_inputs abi)) ps) = Some bs"
    and cd: "cd = ''0x'' @ toHex (bigEndian 4 (uint (sighash lib (fn_name abi)
                     (map input_type (fn_inputs abi))))) @ toHex bs"
    by (auto simp: encodeCall_def encodeFunctionCall_def split: if_splits option.splits)
  have "\<forall>tv \<in> set (zip (map input_type (fn_inputs abi)) ps). \<not> isDynamic (fst tv)"
    using assms(1) by (auto dest!: set_zip_leftD)
  from encode_static_length [OF this bs] len have "length bs = 32 * length (fn_inputs abi)"
    by simp
  with cd show ?thesis
    by (simp del: append.simps)
qed

text \<open>
  What the code computes for a function whose inputs all have static types: four zero bytes
  followed, for every input whose value is truthy, by 32 bytes, \<open>0xFF\<close> when the input is of
  the kind to replace and \<open>0x00\<close> otherwise. An input whose value (given, or the default of its
  type) is falsy is skipped by the guard \<open>if (!value) return offset\<close>, so the pattern is as
  long as the calldata of the function only when no input has a falsy value.
\<close>

lemma replacementMask_static:
  assumes "\<forall>i \<in> set (fn_inputs abi). \<not> isDynamic (input_type i)"
      and "replacementMask lib abi rk = Inr m"
  shows "m = replicate 4 0 @ concat (map (maskOfInput rk) (fn_inputs abi))
         \<and> take 4 m = replicate 4 0
         \<and> (\<forall>b \<in> set m. b = 0 \<or> b = 255)
         \<and> (\<forall>ps cd. encodeCall lib abi ps = Inr cd \<longrightarrow>
               (hexDataLength cd = length m
                  \<longleftrightarrow> (\<forall>i \<in> set (fn_inputs abi). truthyJs (maskValue i))))"
proof -
  note m = replacementMask_static_bytes [OF assms]
  have bytes: "\<forall>b \<in> set m. b = 0 \<or> b = 255"
    using m set_static_mask by auto
  have len: "length m = 4 + 32 * length (filter (\<lambda>i. truthyJs (maskValue i)) (fn_inputs abi))"
    using m by (simp add: length_static_mask)
  have "\<forall>ps cd. encodeCall lib abi ps = Inr cd \<longrightarrow>
          (hexDataLength cd = length m \<longleftrightarrow> (\<forall>i \<in> set (fn_inputs abi). truthyJs (maskValue i)))"
  proof (intro allI impI)
    fix ps cd
    assume "encodeCall lib abi ps = Inr cd"
    from encodeCall_static_length [OF assms(1) this] len
    have "hexDataLength cd = length m \<longleftrightarrow>
            length (filter (\<lambda>i. truthyJs (maskValue i)) (fn_inputs abi)) = length (fn_inputs abi)"
      by auto
    then show "hexDataLength cd = length m \<longleftrightarrow> (\<forall>i \<in> set (fn_inputs abi). truthyJs (maskValue i))"
      by (metis filter_True length_filter_less less_irrefl)
  qed
  with m bytes show ?thesis
    by simp
qed

text \<open>
  A dynamic input that is not to be replaced, with a truthy value: the pattern holds the
  bytes of \<open>dynamicOffset\<close> (here \<open>0xa0\<close> at index 163) and is 228 bytes long, where the
  calldata has 196.
\<close>

lemma replacementMask_dynamic_evaluated:
  "(case replacementMask sampleLibrary
           \<lparr> fn_name = ''safeTransferFrom'', fn_target = sampleTokenContract,
             fn_inputs =
               [ \<lparr> input_kind = Owner, input_type = TAddress, input_value = JUndefined \<rparr>,
                 \<lparr> input_kind = Replaceable, input_type = TAddress, input_value = JUndefined \<rparr>,
                 \<lparr> input_kind = Asset, input_type = TUint256, input_value = JString ''7'' \<rparr>,
                 \<lparr> input_kind = OtherKind, input_type = TUint256, input_value = JNumber 1 \<rparr>,
                 \<lparr> input_kind = OtherKind, input_type = TBytes, input_value = JBytes [] \<rparr> ] \<rparr>
           Replaceable of
      Inl e \<Rightarrow> False
    | Inr m \<Rightarrow> length m = 228 \<and> m ! 163 = 160)"
  by code_simp


text \<open>
  Claim C5 fails of the code. For a function with one input, a \<open>uint256\<close> of the kind to
  replace, the value the pattern is computed from is the default \<open>0\<close> of the type, which is
  falsy, and the guard \<open>if (!value) return offset\<close> skips the input: the pattern is the four
  zero bytes of the selector and nothing else, where the calldata of the default call has 36
  bytes and the claim asks for \<open>0xFF\<close> over the last 32. The same guard skips the empty
  \<open>_data\<close> of the ERC-1155 transfer: the pattern \<open>encodeSell\<close> computes for it has 132 bytes,
  the calldata 196.
\<close>

theorem encodeReplacementPattern_skips_falsy_input:
  "encodeReplacementPattern sampleLibrary
      \<lparr> fn_name = ''approve'', fn_target = sampleTokenContract,
        fn_inputs = [ \<lparr> input_kind = Replaceable, input_type = TUint256,
                        input_value = JUndefined \<rparr> ] \<rparr> Replaceable True
     = Inr ''0x00000000''
   \<and> map_sum (\<lambda>e. e) hexDataLength
        (encodeDefaultCall sampleLibrary
           \<lparr> fn_name = ''approve'', fn_target = sampleTokenContract,
             fn_inputs = [ \<lparr> input_kind = Replaceable, input_type = TUint256,
                             input_value = JUndefined \<rparr> ] \<rparr> sampleAccount)
     = Inr 36
   \<and> (case encodeSell sampleLibrary ERC1155Schema sampleAsset sampleAccount of
        Inl e \<Rightarrow> False
      | Inr params \<Rightarrow>
          hexDataLength (op_replacementPattern params) = 132
          \<and> hexDataLength (op_calldata params) = 196)"
  by code_simp

section \<open>The lengths of calldata and replacement pattern\<close>

lemma hexDataLength_SELL [simp]: "hexDataLength SELL_REPLACEMENT_PATTERN = 196"
  by (simp add: SELL_REPLACEMENT_PATTERN_def hexDataLength_def)

lemma hexDataLength_BUY [simp]: "hexDataLength BUY_REPLACEMENT_PATTERN = 196"
  by (simp add: BUY_REPLACEMENT_PATTERN_def hexDataLength_def)

lemma hexDataLength_call_Cons [simp]:
  "hexDataLength (CHR ''0'' # CHR ''x'' # toHex a @ toHex b) = length a + length b"
  by (simp add: hexDataLength_def)

lemma padRight32_Nil [simp]: "padRight32 [] = []"
  by (simp add: padRight32_def)

lemma safeTransferFrom_length:
  assumes "encodeFunctionCall lib name ERC1155_safeTransferFrom_types [a, b, c, d, JBytes []] = Inr cd"
  shows "hexDataLength cd = 196"
  using assms
  by (auto simp: encodeFunctionCall_def ERC1155_safeTransferFrom_types_def
      defaultAbiCoder_encode_def encodeParam_def isDynamic_def dynamicBytes_def
      split: option.splits if_splits)

lemma encodeSell_length:
  assumes "encodeSell lib schema asset addr = Inr params"
  shows "hexDataLength (op_calldata params) = 196"
  using assms
  by (auto simp: encodeSell_def Let_def split: option.splits sum.splits
      dest: safeTransferFrom_length)

text \<open>
  An order that \<open>_makeSellOrder\<close> returns has a calldata of 196 bytes, the ERC-1155 transfer,
  and the literal pattern of 196 bytes.
\<close>

lemma makeSellOrder_pattern_length:
  assumes "makeSellOrder lib sm now r args = Inr ord"
  shows "hexDataLength (replacementPattern ord) = hexDataLength (calldata ord)"
  using assms
  unfolding makeSellOrder_def Let_def
  by (auto split: sum.splits option.splits if_splits dest: encodeSell_length)

text \<open>
  Claim C4 on the counter-order to a listing of an ERC-721 token (\<open>sampleSellOrder\<close>):
  \<open>_makeMatchingOrder\<close> encodes the ERC-721 transfer, 100 bytes of calldata, and writes its
  literal pattern of 196 bytes.
\<close>

theorem makeMatchingOrder_pattern_length_mismatch:
  "(case makeMatchingOrder sampleLibrary (\<lambda>packed. packed) sampleSchemaMap 1700000000000 (1 / 3)
           sampleBuyer None sampleSellOrder sampleBuyer of
      Inl e \<Rightarrow> False
    | Inr (m, h) \<Rightarrow>
        hexDataLength (calldata m) = 100
        \<and> hexDataLength (replacementPattern m) = 196
        \<and> hexDataLength (replacementPattern m) \<noteq> hexDataLength (calldata m))"
  using sampleMatch_evaluated by (auto split: sum.splits)

end
